theory Spec2Isabelle
  imports Complex_Main "HOL-Library.Word" "HOL-Library.Sublist"
begin

section \<open>Data model\<close>

text \<open>
  A \<^verbatim>\<open>Uint8Array\<close> is a list of 8-bit words. A \<^verbatim>\<open>bigint\<close> is an unbounded integer, so
  the revision is an \<^typ>\<open>int\<close> and the 64-bit bound is a check the code makes, not a
  property of the type.
\<close>

type_synonym byte = "8 word"
type_synonym bytes = "byte list"

text \<open>\<^verbatim>\<open>RegistryEntry = { dataKey: string; data: Uint8Array; revision: bigint }\<close>\<close>

record RegistryEntry =
  dataKey :: string
  data :: bytes
  revision :: int

text \<open>
  \<^verbatim>\<open>SignedRegistryEntry = { entry: RegistryEntry | null; signature: Signature | null }\<close>
\<close>

record SignedRegistryEntry =
  entry :: "RegistryEntry option"
  signature :: "bytes option"

text \<open>
  The error object of a rejected HTTP request, as \<^verbatim>\<open>handleGetEntryErrResponse\<close> reads it:
  \<^verbatim>\<open>err.response\<close> may be missing, and so may \<^verbatim>\<open>err.response.status\<close>. The message stands
  for everything else the object carries.
\<close>

record AxiosError =
  response_status :: "nat option option"
  message :: string

text \<open>Every \<^verbatim>\<open>throw\<close> of the modelled code is a value of this type.\<close>

datatype error =
    ValidationError string
  | RevisionExhausted
  | IncompleteResponse
  | IntegrityError
  | IncompleteAxiosError
  | Rethrown AxiosError
  | NotJSON
  | DataNotJSON
  | External string

section \<open>Constants\<close>

text \<open>
  Modelled from the spec: \<^verbatim>\<open>MAX_REVISION\<close> of \<^verbatim>\<open>utils/number\<close>, which is not among the sources.
  The spec gives the bound as \<open>2^64 - 1\<close>, the largest unsigned 64-bit integer.
\<close>

definition MAX_REVISION :: int where
  "MAX_REVISION = 2 ^ 64 - 1"

text \<open>
  Modelled from the spec: \<^verbatim>\<open>assertUint64\<close> of \<^verbatim>\<open>utils/number\<close>, which is not among the
  sources. It fails when its argument is not an unsigned 64-bit integer.
\<close>

definition assertUint64 :: "int \<Rightarrow> error + unit" where
  "assertUint64 n =
     (if n < 0 then Inl (ValidationError ''negative'')
      else if n > MAX_REVISION then Inl (ValidationError ''exceeds 2^64-1'')
      else Inr ())"

section \<open>Next revision\<close>

text \<open>
  \<^verbatim>\<open>getNextRevisionFromEntry(entry)\<close> of \<^verbatim>\<open>skydb.js\<close>: \<open>0\<close> for \<^verbatim>\<open>null\<close>, the revision plus one
  otherwise, and a throw when the result is beyond \<^verbatim>\<open>MAX_REVISION\<close>.
\<close>

definition getNextRevisionFromEntry :: "RegistryEntry option \<Rightarrow> error + int" where
  "getNextRevisionFromEntry e =
     (let revision = (case e of None \<Rightarrow> 0 | Some en \<Rightarrow> revision en + 1)
      in if revision > MAX_REVISION then Inl RevisionExhausted else Inr revision)"


section \<open>JavaScript values\<close>

text \<open>
  The values \<^verbatim>\<open>JSON.parse\<close> and a download hand to the code. An object is the list of its
  own properties. A number carries its numeric value; \<^verbatim>\<open>NaN\<close> is left out, since parsing
  JSON text never yields it.
\<close>

datatype js =
    JUndefined
  | JNull
  | JBool bool
  | JNum real
  | JStr string
  | JArr "js list"
  | JObj "(string \<times> js) list"

text \<open>\<^verbatim>\<open>typeof v === "object"\<close>, which holds of \<^verbatim>\<open>null\<close> and of arrays too.\<close>

fun typeof_object :: "js \<Rightarrow> bool" where
  "typeof_object JNull = True"
| "typeof_object (JArr _) = True"
| "typeof_object (JObj _) = True"
| "typeof_object _ = False"

text \<open>The truthiness test that \<^verbatim>\<open>&&\<close>, \<^verbatim>\<open>!\<close> and \<^verbatim>\<open>if\<close> apply to a value.\<close>

fun truthy :: "js \<Rightarrow> bool" where
  "truthy JUndefined = False"
| "truthy JNull = False"
| "truthy (JBool b) = b"
| "truthy (JNum x) = (x \<noteq> 0)"
| "truthy (JStr s) = (s \<noteq> [])"
| "truthy (JArr _) = True"
| "truthy (JObj _) = True"

text \<open>
  \<^verbatim>\<open>v[k]\<close> for a value that is neither \<^verbatim>\<open>null\<close> nor \<^verbatim>\<open>undefined\<close> and a key that is no
  built-in property: the property of an object, \<^verbatim>\<open>undefined\<close> when it is absent or
  when the value is not an object.
\<close>

fun get_prop :: "js \<Rightarrow> string \<Rightarrow> js" where
  "get_prop (JObj kvs) k = (case map_of kvs k of Some v \<Rightarrow> v | None \<Rightarrow> JUndefined)"
| "get_prop _ k = JUndefined"

fun has_key :: "js \<Rightarrow> string \<Rightarrow> bool" where
  "has_key (JObj kvs) k = (k \<in> fst ` set kvs)"
| "has_key _ k = False"

fun as_string :: "js \<Rightarrow> string option" where
  "as_string (JStr s) = Some s"
| "as_string _ = None"

section \<open>Collaborators outside the sources\<close>

text \<open>
  The helpers of \<^verbatim>\<open>utils/*\<close>, \<^verbatim>\<open>crypto\<close> and \<^verbatim>\<open>skylink/*\<close>, the \<^verbatim>\<open>tweetnacl\<close> library
  and the built-ins \<^verbatim>\<open>JSON.parse\<close>, \<^verbatim>\<open>JSON.stringify\<close> and \<^verbatim>\<open>BigInt\<close> are not among the
  sources. The modelled functions take them as parameters, gathered in one record; a
  helper that can throw returns a sum.
\<close>

record deps =
  isHexString :: "string \<Rightarrow> bool"
  trimPrefix :: "string \<Rightarrow> string \<Rightarrow> string"
  ensurePrefix :: "string \<Rightarrow> string \<Rightarrow> string"
  trimUriPrefix :: "string \<Rightarrow> string \<Rightarrow> string"
  URI_SKYNET_PREFIX :: string
  toHexString :: "bytes \<Rightarrow> string"
  hexToUint8Array :: "string \<Rightarrow> error + bytes"
  stringToUint8ArrayUtf8 :: "string \<Rightarrow> bytes"
  uint8ArrayToStringUtf8 :: "bytes \<Rightarrow> string"
  hashDataKey :: "string \<Rightarrow> bytes"
  hashRegistryEntry :: "RegistryEntry \<Rightarrow> bool \<Rightarrow> error + bytes"
  nacl_sign :: "bytes \<Rightarrow> bytes \<Rightarrow> error + bytes"
  nacl_sign_detached_verify :: "bytes \<Rightarrow> bytes \<Rightarrow> bytes \<Rightarrow> error + bool"
  nacl_sign_keyPair_fromSecretKey :: "bytes \<Rightarrow> error + bytes"
  makeUrl :: "string \<Rightarrow> string \<Rightarrow> string"
  addUrlQuery :: "string \<Rightarrow> (string \<times> string) list \<Rightarrow> string"
  JSON_parse :: "string \<Rightarrow> js option"
  JSON_stringify :: "js \<Rightarrow> string"
  BigInt :: "string \<Rightarrow> error + int"
  formatSkylink :: "string \<Rightarrow> string"
  validateSkylinkString :: "string \<Rightarrow> error + string"
  encodeSkylinkBase64 :: "bytes \<Rightarrow> string"
  decodeSkylinkBase64 :: "string \<Rightarrow> error + bytes"
  decodeSkylink :: "string \<Rightarrow> error + bytes"
  deriveDiscoverableFileTweak :: "string \<Rightarrow> string"

text \<open>
  Modelled from the spec: the sizes of \<^verbatim>\<open>skylink/sia\<close>, which is not among the sources. A
  raw skylink has 34 bytes, its base64 string 46 characters, and the deletion sentinel
  \<^verbatim>\<open>EMPTY_SKYLINK\<close> is the zero-filled array of the raw length.
\<close>

definition RAW_SKYLINK_SIZE :: nat where
  "RAW_SKYLINK_SIZE = 34"

definition BASE64_ENCODED_SKYLINK_SIZE :: nat where
  "BASE64_ENCODED_SKYLINK_SIZE = 46"

definition EMPTY_SKYLINK :: bytes where
  "EMPTY_SKYLINK = replicate RAW_SKYLINK_SIZE 0"

text \<open>
  Modelled from the spec: \<^verbatim>\<open>areEqualUint8Arrays\<close> of \<^verbatim>\<open>utils/array\<close>, which is not among the
  sources: the entry data "equals" the sentinel.
\<close>

definition areEqualUint8Arrays :: "bytes \<Rightarrow> bytes \<Rightarrow> bool" where
  "areEqualUint8Arrays a b = (a = b)"

text \<open>
  Modelled from the spec: the validators of \<^verbatim>\<open>utils/validation\<close>, which are not among the
  sources. Each throws a validation error when its argument has not the shape its name
  says. Validators of a type that the model's types already fix
  (\<^verbatim>\<open>validateString\<close> on a string, \<^verbatim>\<open>validateUint8Array\<close> on bytes,
  \<^verbatim>\<open>validateOptionalObject\<close> on the options) always pass and are left out.
\<close>

definition validateHexString :: "deps \<Rightarrow> string \<Rightarrow> string \<Rightarrow> error + unit" where
  "validateHexString D name v = (if isHexString D v then Inr () else Inl (ValidationError name))"

definition validateObject :: "string \<Rightarrow> js \<Rightarrow> error + unit" where
  "validateObject name v =
     (if typeof_object v \<and> v \<noteq> JNull then Inr () else Inl (ValidationError name))"

definition validateUint8ArrayLen :: "string \<Rightarrow> bytes \<Rightarrow> nat \<Rightarrow> error + unit" where
  "validateUint8ArrayLen name v n =
     (if length v = n then Inr () else Inl (ValidationError name))"

section \<open>Sequencing, effects and the trace\<close>

text \<open>A throw ends the computation: the rest runs only on a value.\<close>

definition and_then :: "error + 'a \<Rightarrow> ('a \<Rightarrow> error + 'b) \<Rightarrow> error + 'b" where
  "and_then m f = (case m of Inl e \<Rightarrow> Inl e | Inr x \<Rightarrow> f x)"

text \<open>The file \<^verbatim>\<open>new File([content], name, {type})\<close> handed to the upload.\<close>

record File =
  file_content :: string
  file_name :: string
  file_type :: string

text \<open>
  The request body of the registry POST, the object \<^verbatim>\<open>data\<close> of \<^verbatim>\<open>postSignedEntry\<close>:
  \<^verbatim>\<open>{publickey: {algorithm: "ed25519", key}, datakey, revision, data, signature}\<close>.
\<close>

record PostData =
  post_key :: bytes
  post_datakey :: string
  post_revision :: string
  post_data :: bytes
  post_signature :: bytes

text \<open>
  One event for each operation the client awaits, in the order in which they settle:
  the upload of a file, the registry GET of a URL, the registry POST of a request body
  (the object and the text put on the wire), the download of a data link, and the two
  calls to the identity delegate.
\<close>

datatype event =
    Upload File
  | RegistryGet string
  | RegistryPost PostData string
  | Download string
  | UserID
  | SignRegistryEntry RegistryEntry string

text \<open>
  What the portal and the identity delegate answer. A rejected request carries the
  error object; a fulfilled registry GET carries the raw response text
  (\<^verbatim>\<open>undefined\<close> when there is none).
\<close>

record world =
  portalUrl :: string
  registry_get :: "string \<Rightarrow> AxiosError + string option"
  registry_post :: "string \<Rightarrow> AxiosError option"
  uploadFile :: "File \<Rightarrow> error + string"
  getFileContent :: "string \<Rightarrow> error + js"
  userID :: "error + string"
  signRegistryEntry :: "RegistryEntry \<Rightarrow> string \<Rightarrow> error + bytes"

text \<open>An effectful computation: its outcome and the events it caused.\<close>

type_synonym 'a io = "(error + 'a) \<times> event list"

definition ret :: "error + 'a \<Rightarrow> 'a io" where
  "ret r = (r, [])"

definition perform :: "event \<Rightarrow> error + 'a \<Rightarrow> 'a io" where
  "perform ev r = (r, [ev])"

definition io_bind :: "'a io \<Rightarrow> ('a \<Rightarrow> 'b io) \<Rightarrow> 'b io" where
  "io_bind m f =
     (case fst m of
        Inl e \<Rightarrow> (Inl e, snd m)
      | Inr x \<Rightarrow> (fst (f x), snd m @ snd (f x)))"

text \<open>
  \<^verbatim>\<open>await Promise.all([a, b])\<close> on two operations that were both started before: they
  settle in either order, which the first argument fixes. The join is fulfilled when
  both are, and rejected as soon as one is rejected, with that one's error; an
  operation that has not settled by then leaves no event.
\<close>

datatype settle_order = FirstSettlesFirst | SecondSettlesFirst

definition Promise_all :: "settle_order \<Rightarrow> 'a io \<Rightarrow> 'b io \<Rightarrow> ('a \<times> 'b) io" where
  "Promise_all ord a b =
     (case ord of
        FirstSettlesFirst \<Rightarrow>
          (case fst a of
             Inl e \<Rightarrow> (Inl e, snd a)
           | Inr x \<Rightarrow>
               (case fst b of
                  Inl e \<Rightarrow> (Inl e, snd a @ snd b)
                | Inr y \<Rightarrow> (Inr (x, y), snd a @ snd b)))
      | SecondSettlesFirst \<Rightarrow>
          (case fst b of
             Inl e \<Rightarrow> (Inl e, snd b)
           | Inr y \<Rightarrow>
               (case fst a of
                  Inl e \<Rightarrow> (Inl e, snd b @ snd a)
                | Inr x \<Rightarrow> (Inr (x, y), snd b @ snd a))))"

text \<open>
  The options after merging the defaults, the client's and the call's, as far as the
  modelled code reads them. \<^verbatim>\<open>extractOptions\<close> keeps these fields.
\<close>

record options =
  hashedDataKeyHex :: bool
  endpointGetEntry :: string
  endpointSetEntry :: string
  cachedDataLink :: "string option"

text \<open>
  What a trace shows of the revisions written: the \<^verbatim>\<open>revision\<close> fields of the bodies of
  its registry POSTs, in order.
\<close>

fun posted_revisions :: "event list \<Rightarrow> string list" where
  "posted_revisions [] = []"
| "posted_revisions (RegistryPost p w # evs) = post_revision p # posted_revisions evs"
| "posted_revisions (_ # evs) = posted_revisions evs"

section \<open>The revision on the wire\<close>

text \<open>
  A JavaScript string is modelled as a list of 8-bit characters. \<^verbatim>\<open>\s\<close> of a regular
  expression matches, among those, tab, line feed, vertical tab, form feed, carriage
  return, space and the no-break space; \<^verbatim>\<open>[0-9]\<close> matches the ten digits.
\<close>

definition is_space :: "char \<Rightarrow> bool" where
  "is_space c = (c \<in> {CHR 0x09, CHR 0x0A, CHR 0x0B, CHR 0x0C, CHR 0x0D, CHR 0x20, CHR 0xA0})"

definition is_digit :: "char \<Rightarrow> bool" where
  "is_digit c = (c \<in> set ''0123456789'')"

text \<open>The literal \<^verbatim>\<open>"revision":\<close> with which both expressions begin.\<close>

definition revision_key :: string where
  \<open>revision_key = ''"revision":''\<close>

definition dquote :: char where
  "dquote = CHR 0x22"

fun strip_prefix :: "string \<Rightarrow> string \<Rightarrow> string option" where
  "strip_prefix [] s = Some s"
| "strip_prefix (p # ps) [] = None"
| "strip_prefix (p # ps) (c # cs) = (if p = c then strip_prefix ps cs else None)"

text \<open>
  \<^verbatim>\<open>REGEX_REVISION_NO_QUOTES = /"revision":\s*([0-9]+)/\<close> matched at the start of a
  string: the digits of the group and the text after the match. Both repetitions are
  greedy, and since neither a digit is a space nor the reverse, no shorter repetition
  can match where the longest does not.
\<close>

definition match_REGEX_REVISION_NO_QUOTES :: "string \<Rightarrow> (string \<times> string) option" where
  "match_REGEX_REVISION_NO_QUOTES s =
     (case strip_prefix revision_key s of
        None \<Rightarrow> None
      | Some r \<Rightarrow>
          (let r' = dropWhile is_space r; ds = takeWhile is_digit r'
           in if ds = [] then None else Some (ds, dropWhile is_digit r')))"

text \<open>
  \<^verbatim>\<open>REGEX_REVISION_WITH_QUOTES = /"revision":\s*"([0-9]+)"/\<close> matched at the start of a
  string.
\<close>

definition match_REGEX_REVISION_WITH_QUOTES :: "string \<Rightarrow> (string \<times> string) option" where
  "match_REGEX_REVISION_WITH_QUOTES s =
     (case strip_prefix revision_key s of
        None \<Rightarrow> None
      | Some r \<Rightarrow>
          (case dropWhile is_space r of
             [] \<Rightarrow> None
           | q # r' \<Rightarrow>
               (let ds = takeWhile is_digit r'
                in if q \<noteq> dquote \<or> ds = [] then None
                   else (case dropWhile is_digit r' of
                           [] \<Rightarrow> None
                         | q' # rest \<Rightarrow> if q' = dquote then Some (ds, rest) else None))))"

text \<open>
  \<^verbatim>\<open>text.replace(regex, replacement)\<close> for an expression without the \<^verbatim>\<open>g\<close> flag: the
  leftmost match is replaced and the text before and after it is kept. The expression
  is given by its match at the start of a string, the replacement as a function of the
  group \<^verbatim>\<open>$1\<close>.
\<close>

fun String_replace ::
    "(string \<Rightarrow> (string \<times> string) option) \<Rightarrow> (string \<Rightarrow> string) \<Rightarrow> string \<Rightarrow> string" where
  "String_replace regex replacement [] = []"
| "String_replace regex replacement (c # cs) =
     (case regex (c # cs) of
        Some (ds, rest) \<Rightarrow> replacement ds @ rest
      | None \<Rightarrow> c # String_replace regex replacement cs)"

text \<open>\<^verbatim>\<open>data.replace(REGEX_REVISION_NO_QUOTES, '"revision":"$1"')\<close>\<close>

definition add_revision_quotes :: "string \<Rightarrow> string" where
  "add_revision_quotes s =
     String_replace match_REGEX_REVISION_NO_QUOTES
       (\<lambda>ds. revision_key @ [dquote] @ ds @ [dquote]) s"

text \<open>\<^verbatim>\<open>json.replace(REGEX_REVISION_WITH_QUOTES, '"revision":$1')\<close>\<close>

definition strip_revision_quotes :: "string \<Rightarrow> string" where
  "strip_revision_quotes s =
     String_replace match_REGEX_REVISION_WITH_QUOTES (\<lambda>ds. revision_key @ ds) s"





subsection \<open>Serialising the request body\<close>

text \<open>Decimal digits of a natural number, as \<^verbatim>\<open>toString\<close> prints them.\<close>

definition digit_char :: "nat \<Rightarrow> char" where
  "digit_char n = ''0123456789'' ! n"

function string_of_nat :: "nat \<Rightarrow> string" where
  "string_of_nat n =
     (if n < 10 then [digit_char n] else string_of_nat (n div 10) @ [digit_char (n mod 10)])"
  by pat_completeness auto
termination
  by (relation "measure id") auto

declare string_of_nat.simps [simp del]

text \<open>\<^verbatim>\<open>revision.toString()\<close> of a \<^verbatim>\<open>bigint\<close>.\<close>

definition bigint_toString :: "int \<Rightarrow> string" where
  "bigint_toString i = (if i < 0 then CHR ''-'' # string_of_nat (nat (- i)) else string_of_nat (nat i))"

text \<open>
  \<^verbatim>\<open>JSON.stringify\<close> of a string: quotes around it, a backslash before a quote and a
  backslash, the short escapes for backspace, tab, line feed, form feed and carriage
  return, and \<^verbatim>\<open>\u00XX\<close> for the other control characters.
\<close>

definition hex_char :: "nat \<Rightarrow> char" where
  "hex_char n = ''0123456789abcdef'' ! n"

definition json_escape_char :: "char \<Rightarrow> string" where
  "json_escape_char c =
     (if c = dquote then [CHR 0x5C, dquote]
      else if c = CHR 0x5C then [CHR 0x5C, CHR 0x5C]
      else if c = CHR 0x08 then [CHR 0x5C, CHR ''b'']
      else if c = CHR 0x09 then [CHR 0x5C, CHR ''t'']
      else if c = CHR 0x0A then [CHR 0x5C, CHR ''n'']
      else if c = CHR 0x0C then [CHR 0x5C, CHR ''f'']
      else if c = CHR 0x0D then [CHR 0x5C, CHR ''r'']
      else if (of_char c :: nat) < 32
        then [CHR 0x5C, CHR ''u'', CHR ''0'', CHR ''0'',
              hex_char (of_char c div 16), hex_char (of_char c mod 16)]
      else [c])"

definition json_quote :: "string \<Rightarrow> string" where
  "json_quote s = [dquote] @ concat (map json_escape_char s) @ [dquote]"

text \<open>\<^verbatim>\<open>JSON.stringify\<close> of an array of byte values, \<^verbatim>\<open>[1,2,3]\<close>.\<close>

fun comma_separated :: "string list \<Rightarrow> string" where
  "comma_separated [] = []"
| "comma_separated [x] = x"
| "comma_separated (x # y # ys) = x @ '','' @ comma_separated (y # ys)"

definition json_byte_array :: "bytes \<Rightarrow> string" where
  "json_byte_array bs = ''['' @ comma_separated (map (\<lambda>b. string_of_nat (unat b)) bs) @ '']''"

text \<open>
  The text of the request body around the value of the revision: the properties in the
  order in which the object literal of \<^verbatim>\<open>postSignedEntry\<close> lists them, without white
  space, as \<^verbatim>\<open>JSON.stringify\<close> writes them.
\<close>

definition request_text :: "PostData \<Rightarrow> string \<Rightarrow> string" where
  \<open>request_text d revision_value =
     ''{"publickey":{"algorithm":"ed25519","key":'' @ json_byte_array (post_key d)
     @ ''},"datakey":'' @ json_quote (post_datakey d)
     @ '',"revision":'' @ revision_value
     @ '',"data":'' @ json_byte_array (post_data d)
     @ '',"signature":'' @ json_byte_array (post_signature d) @ ''}''\<close>

text \<open>\<^verbatim>\<open>JSON.stringify(data)\<close> of the request body: the revision is a string.\<close>

definition stringify_PostData :: "PostData \<Rightarrow> string" where
  "stringify_PostData d = request_text d (json_quote (post_revision d))"

text \<open>The \<^verbatim>\<open>transformRequest\<close> of \<^verbatim>\<open>postSignedEntry\<close>.\<close>

definition transformRequest :: "PostData \<Rightarrow> string" where
  "transformRequest d = strip_revision_quotes (stringify_PostData d)"

text \<open>
  The \<^verbatim>\<open>transformResponse\<close> of \<^verbatim>\<open>getEntry\<close>: no data gives the empty object; text that
  does not parse after the substitution is returned as a string.
\<close>

definition transformResponse :: "deps \<Rightarrow> string option \<Rightarrow> js" where
  "transformResponse D raw =
     (case raw of
        None \<Rightarrow> JObj []
      | Some d \<Rightarrow>
          (let d' = add_revision_quotes d
           in case JSON_parse D d' of Some v \<Rightarrow> v | None \<Rightarrow> JStr d'))"

section \<open>Registry client\<close>

definition ED25519_PREFIX :: string where
  "ED25519_PREFIX = ''ed25519:''"

definition DEFAULT_GET_ENTRY_TIMEOUT :: string where
  "DEFAULT_GET_ENTRY_TIMEOUT = ''5''"

definition validatePublicKey :: "deps \<Rightarrow> string \<Rightarrow> string \<Rightarrow> error + unit" where
  "validatePublicKey D name publicKey =
     (if \<not> isHexString D (trimPrefix D publicKey ED25519_PREFIX)
      then Inl (ValidationError name) else Inr ())"

definition getEntryUrlForPortal ::
    "deps \<Rightarrow> string \<Rightarrow> string \<Rightarrow> string \<Rightarrow> options \<Rightarrow> error + string" where
  "getEntryUrlForPortal D portal publicKey dk opts =
     and_then (validatePublicKey D ''publicKey'' publicKey) (\<lambda>_.
       let dataKeyHashHex =
             (if \<not> hashedDataKeyHex opts then toHexString D (hashDataKey D dk) else dk);
           query = [(''publickey'', ensurePrefix D publicKey ED25519_PREFIX),
                    (''datakey'', dataKeyHashHex),
                    (''timeout'', DEFAULT_GET_ENTRY_TIMEOUT)]
       in Inr (addUrlQuery D (makeUrl D portal (endpointGetEntry opts)) query))"

text \<open>\<^verbatim>\<open>getEntryUrl\<close>, for a client whose portal URL is known.\<close>

definition getEntryUrl :: "deps \<Rightarrow> world \<Rightarrow> string \<Rightarrow> string \<Rightarrow> options \<Rightarrow> error + string" where
  "getEntryUrl D W publicKey dk opts = getEntryUrlForPortal D (portalUrl W) publicKey dk opts"

text \<open>
  \<^verbatim>\<open>handleGetEntryErrResponse(err)\<close>: status 404 is the empty signed entry; an error object
  without a response or without a (truthy) status is replaced by a new error; any other
  error object is thrown again as it is.
\<close>

definition handleGetEntryErrResponse :: "AxiosError \<Rightarrow> error + SignedRegistryEntry" where
  "handleGetEntryErrResponse err =
     (case response_status err of
        None \<Rightarrow> Inl IncompleteAxiosError
      | Some None \<Rightarrow> Inl IncompleteAxiosError
      | Some (Some st) \<Rightarrow>
          if st = 0 then Inl IncompleteAxiosError
          else if st = 404 then Inr \<lparr>entry = None, signature = None\<rparr>
          else Inl (Rethrown err))"

text \<open>
  The part of \<^verbatim>\<open>getEntry\<close> after a fulfilled request: the sanity check of the three
  fields (any throw inside it, also of reading a property of \<^verbatim>\<open>null\<close>, becomes the
  incomplete-response error), the conversions, and the verification of the signature
  over the hash of the entry. The arguments of the verification are evaluated from left
  to right.
\<close>

definition getEntry_verified ::
    "deps \<Rightarrow> options \<Rightarrow> string \<Rightarrow> string \<Rightarrow> js \<Rightarrow> error + SignedRegistryEntry" where
  "getEntry_verified D opts publicKey dk rd =
     (if rd = JNull \<or> rd = JUndefined then Inl IncompleteResponse
      else case as_string (get_prop rd ''data'') of
        None \<Rightarrow> Inl IncompleteResponse
      | Some data_hex \<Rightarrow>
      (case as_string (get_prop rd ''revision'') of
        None \<Rightarrow> Inl IncompleteResponse
      | Some revision_str \<Rightarrow>
      (case as_string (get_prop rd ''signature'') of
        None \<Rightarrow> Inl IncompleteResponse
      | Some signature_hex \<Rightarrow>
          and_then (BigInt D revision_str) (\<lambda>rev.
          and_then (hexToUint8Array D signature_hex) (\<lambda>sig.
          and_then (if data_hex \<noteq> [] then hexToUint8Array D data_hex else Inr []) (\<lambda>d.
            let en = \<lparr>dataKey = dk, data = d, revision = rev\<rparr>;
                signedEntry = \<lparr>entry = Some en, signature = Some sig\<rparr>
            in and_then (hashRegistryEntry D en (hashedDataKeyHex opts)) (\<lambda>h.
               and_then (hexToUint8Array D publicKey) (\<lambda>pk.
               and_then (nacl_sign_detached_verify D h sig pk) (\<lambda>ok.
                 if ok then Inr signedEntry else Inl IntegrityError)))))))))"

text \<open>
  \<^verbatim>\<open>getEntry(publicKey, dataKey, customOptions)\<close>: one GET of the entry URL; a rejected
  request goes to \<^const>\<open>handleGetEntryErrResponse\<close>, a fulfilled one through
  \<^const>\<open>transformResponse\<close> to \<^const>\<open>getEntry_verified\<close>.
\<close>

definition getEntry ::
    "deps \<Rightarrow> world \<Rightarrow> options \<Rightarrow> string \<Rightarrow> string \<Rightarrow> SignedRegistryEntry io" where
  "getEntry D W opts publicKey dk =
     io_bind (ret (getEntryUrl D W publicKey dk opts)) (\<lambda>url.
       perform (RegistryGet url)
         (case registry_get W url of
            Inl err \<Rightarrow> handleGetEntryErrResponse err
          | Inr raw \<Rightarrow> getEntry_verified D opts publicKey dk (transformResponse D raw)))"

text \<open>
  \<^verbatim>\<open>signEntry(privateKey, entry, hashedDataKeyHex)\<close>: \<^verbatim>\<open>sign\<close> of \<^verbatim>\<open>tweetnacl\<close> applied to
  the hash of the entry and the private key.
\<close>

definition signEntry :: "deps \<Rightarrow> string \<Rightarrow> RegistryEntry \<Rightarrow> bool \<Rightarrow> error + bytes" where
  "signEntry D privateKey en hashed =
     and_then (hexToUint8Array D privateKey) (\<lambda>privateKeyArray.
     and_then (hashRegistryEntry D en hashed) (\<lambda>h.
       nacl_sign D h privateKeyArray))"

text \<open>
  \<^verbatim>\<open>postSignedEntry(publicKey, entry, signature, customOptions)\<close>: one POST whose body is
  the serialised object with the quotes of the revision stripped.
\<close>

definition postSignedEntry ::
    "deps \<Rightarrow> world \<Rightarrow> options \<Rightarrow> string \<Rightarrow> RegistryEntry \<Rightarrow> bytes \<Rightarrow> unit io" where
  "postSignedEntry D W opts publicKey en sig =
     io_bind (ret (validateHexString D ''publicKey'' publicKey)) (\<lambda>_.
     io_bind (ret (hexToUint8Array D publicKey)) (\<lambda>key.
       let datakey = (if \<not> hashedDataKeyHex opts
                      then toHexString D (hashDataKey D (dataKey en)) else dataKey en);
           d = \<lparr>post_key = key, post_datakey = datakey,
                post_revision = bigint_toString (revision en),
                post_data = data en, post_signature = sig\<rparr>
       in perform (RegistryPost d (transformRequest d))
            (case registry_post W (transformRequest d) of
               Some err \<Rightarrow> Inl (Rethrown err)
             | None \<Rightarrow> Inr ())))"

text \<open>\<^verbatim>\<open>setEntry(privateKey, entry, customOptions)\<close>.\<close>

definition setEntry :: "deps \<Rightarrow> world \<Rightarrow> options \<Rightarrow> string \<Rightarrow> RegistryEntry \<Rightarrow> unit io" where
  "setEntry D W opts privateKey en =
     io_bind (ret (validateHexString D ''privateKey'' privateKey)) (\<lambda>_.
     io_bind (ret (assertUint64 (revision en))) (\<lambda>_.
     io_bind (ret (hexToUint8Array D privateKey)) (\<lambda>privateKeyArray.
     io_bind (ret (signEntry D privateKey en (hashedDataKeyHex opts))) (\<lambda>sig.
     io_bind (ret (nacl_sign_keyPair_fromSecretKey D privateKeyArray)) (\<lambda>publicKeyArray.
       postSignedEntry D W opts (toHexString D publicKeyArray) en sig)))))"

section \<open>SkyDB\<close>

definition JSON_RESPONSE_VERSION :: real where
  "JSON_RESPONSE_VERSION = 2"

text \<open>\<^verbatim>\<open>JSONResponse = { data: JsonData | null; dataLink: string | null }\<close>\<close>

record JSONResponse =
  json_data :: "js option"
  dataLink :: "string option"

text \<open>
  \<^verbatim>\<open>getNextRegistryEntry(client, publicKey, dataKey, data, customOptions)\<close>: the entry
  is fetched, and the new entry carries the given data and the next revision.
\<close>

definition getNextRegistryEntry ::
    "deps \<Rightarrow> world \<Rightarrow> options \<Rightarrow> string \<Rightarrow> string \<Rightarrow> bytes \<Rightarrow> RegistryEntry io" where
  "getNextRegistryEntry D W opts publicKey dk d =
     io_bind (getEntry D W opts publicKey dk) (\<lambda>signedEntry.
       ret (and_then (getNextRevisionFromEntry (entry signedEntry)) (\<lambda>rev.
              Inr \<lparr>dataKey = dk, data = d, revision = rev\<rparr>)))"

text \<open>
  \<^verbatim>\<open>getOrCreateRegistryEntry(client, publicKey, dataKey, json, customOptions)\<close>: the
  upload and the fetch of the entry are both started, then awaited together.
\<close>

definition getOrCreateRegistryEntry ::
    "deps \<Rightarrow> world \<Rightarrow> settle_order \<Rightarrow> options \<Rightarrow> string \<Rightarrow> string \<Rightarrow> js
       \<Rightarrow> (RegistryEntry \<times> string) io" where
  "getOrCreateRegistryEntry D W ord opts publicKey dk json =
     (let fullData = JObj [(''_data'', json), (''_v'', JNum JSON_RESPONSE_VERSION)];
          dataKeyHex = (if \<not> hashedDataKeyHex opts
                        then toHexString D (stringToUint8ArrayUtf8 D dk) else dk);
          file = \<lparr>file_content = JSON_stringify D fullData, file_name = ''dk:'' @ dataKeyHex,
                  file_type = ''application/json''\<rparr>;
          skyfilePromise = perform (Upload file) (uploadFile W file);
          entryPromise = getEntry D W opts publicKey dk
      in io_bind (Promise_all ord entryPromise skyfilePromise) (\<lambda>(signedEntry, skylink).
           ret (and_then (getNextRevisionFromEntry (entry signedEntry)) (\<lambda>rev.
                  let link = trimUriPrefix D skylink (URI_SKYNET_PREFIX D)
                  in and_then (decodeSkylinkBase64 D link) (\<lambda>d.
                     and_then (validateUint8ArrayLen ''data'' d RAW_SKYLINK_SIZE) (\<lambda>_.
                       Inr (\<lparr>dataKey = dk, data = d, revision = rev\<rparr>,
                            formatSkylink D link)))))))"

text \<open>\<^verbatim>\<open>setJSON(privateKey, dataKey, json, customOptions)\<close>.\<close>

definition setJSON ::
    "deps \<Rightarrow> world \<Rightarrow> settle_order \<Rightarrow> options \<Rightarrow> string \<Rightarrow> string \<Rightarrow> js \<Rightarrow> JSONResponse io" where
  "setJSON D W ord opts privateKey dk json =
     io_bind (ret (validateHexString D ''privateKey'' privateKey)) (\<lambda>_.
     io_bind (ret (validateObject ''json'' json)) (\<lambda>_.
     io_bind (ret (and_then (hexToUint8Array D privateKey)
                     (nacl_sign_keyPair_fromSecretKey D))) (\<lambda>publicKeyArray.
     io_bind (getOrCreateRegistryEntry D W ord opts (toHexString D publicKeyArray) dk json)
       (\<lambda>(en, link).
     io_bind (setEntry D W opts privateKey en) (\<lambda>_.
       ret (Inr \<lparr>json_data = Some json, dataLink = Some (formatSkylink D link)\<rparr>))))))"



text \<open>
  \<^verbatim>\<open>getSkyDBRegistryEntry(client, publicKey, dataKey, opts)\<close>: \<^verbatim>\<open>null\<close> for an absent
  entry and for one whose data is the sentinel.
\<close>

definition getSkyDBRegistryEntry ::
    "deps \<Rightarrow> world \<Rightarrow> options \<Rightarrow> string \<Rightarrow> string \<Rightarrow> RegistryEntry option io" where
  "getSkyDBRegistryEntry D W opts publicKey dk =
     io_bind (getEntry D W opts publicKey dk) (\<lambda>signedEntry.
       ret (Inr (case entry signedEntry of
                   None \<Rightarrow> None
                 | Some en \<Rightarrow>
                     if areEqualUint8Arrays (data en) EMPTY_SKYLINK then None else Some en)))"

text \<open>\<^verbatim>\<open>parseDataLink(data, legacy)\<close>: the raw and the formatted data link.\<close>

definition parseDataLink :: "deps \<Rightarrow> bytes \<Rightarrow> bool \<Rightarrow> error + string \<times> string" where
  "parseDataLink D d legacy =
     (if legacy \<and> length d = BASE64_ENCODED_SKYLINK_SIZE
        then (let rawDataLink = uint8ArrayToStringUtf8 D d
              in Inr (rawDataLink, formatSkylink D rawDataLink))
      else if length d = RAW_SKYLINK_SIZE
        then (let rawDataLink = encodeSkylinkBase64 D d
              in Inr (rawDataLink, formatSkylink D rawDataLink))
      else Inl (ValidationError ''entry.data''))"

text \<open>
  \<^verbatim>\<open>checkCachedDataLink(rawDataLink, cachedDataLink)\<close>: without a (non-empty) cached link
  the answer is no; otherwise the cached link is validated and parsed, which can throw,
  and compared.
\<close>

definition checkCachedDataLink :: "deps \<Rightarrow> string \<Rightarrow> string option \<Rightarrow> error + bool" where
  "checkCachedDataLink D rawDataLink cached =
     (case cached of
        None \<Rightarrow> Inr False
      | Some c \<Rightarrow>
          if c \<noteq> [] then and_then (validateSkylinkString D c) (\<lambda>c'. Inr (rawDataLink = c'))
          else Inr False)"

text \<open>
  The end of \<^verbatim>\<open>getJSON\<close>, from the downloaded file data on: a value that is no object
  (or is \<^verbatim>\<open>null\<close>) is an error; unless both \<^verbatim>\<open>data["_data"]\<close> and \<^verbatim>\<open>data["_v"]\<close> are truthy
  the value is returned as it is; otherwise \<^verbatim>\<open>_data\<close> is returned, and it is an error
  when that is no object.
\<close>

definition getJSON_fileData :: "js \<Rightarrow> string \<Rightarrow> error + JSONResponse" where
  "getJSON_fileData d link =
     (if \<not> typeof_object d \<or> d = JNull then Inl NotJSON
      else if \<not> (truthy (get_prop d ''_data'') \<and> truthy (get_prop d ''_v''))
        then Inr \<lparr>json_data = Some d, dataLink = Some link\<rparr>
      else (let actualData = get_prop d ''_data''
            in if \<not> typeof_object actualData \<or> d = JNull then Inl DataNotJSON
               else Inr \<lparr>json_data = Some actualData, dataLink = Some link\<rparr>))"

text \<open>\<^verbatim>\<open>getJSON(publicKey, dataKey, customOptions)\<close>.\<close>

definition getJSON :: "deps \<Rightarrow> world \<Rightarrow> options \<Rightarrow> string \<Rightarrow> string \<Rightarrow> JSONResponse io" where
  "getJSON D W opts publicKey dk =
     io_bind (getSkyDBRegistryEntry D W opts publicKey dk) (\<lambda>found.
       case found of
         None \<Rightarrow> ret (Inr \<lparr>json_data = None, dataLink = None\<rparr>)
       | Some en \<Rightarrow>
           io_bind (ret (parseDataLink D (data en) True)) (\<lambda>(rawDataLink, link).
           io_bind (ret (checkCachedDataLink D rawDataLink (cachedDataLink opts))) (\<lambda>hit.
             if hit then ret (Inr \<lparr>json_data = None, dataLink = Some link\<rparr>)
             else io_bind (perform (Download link) (getFileContent W link)) (\<lambda>d.
                    ret (getJSON_fileData d link)))))"

section \<open>MySky\<close>

definition MAX_ENTRY_LENGTH :: nat where
  "MAX_ENTRY_LENGTH = 70"

text \<open>
  \<^verbatim>\<open>MySky.setEntryData(path, data, customOptions)\<close>: the length check comes before the
  first call to the identity delegate; the entry is signed by the delegate and posted.
\<close>

definition setEntryData :: "deps \<Rightarrow> world \<Rightarrow> options \<Rightarrow> string \<Rightarrow> bytes \<Rightarrow> bytes io" where
  "setEntryData D W opts path d =
     io_bind (ret (if length d > MAX_ENTRY_LENGTH
                   then Inl (ValidationError ''data'') else Inr ())) (\<lambda>_.
     io_bind (perform UserID (userID W)) (\<lambda>publicKey.
       let dk = deriveDiscoverableFileTweak D path;
           opts' = opts\<lparr>hashedDataKeyHex := True\<rparr>
       in io_bind (getNextRegistryEntry D W opts' publicKey dk d) (\<lambda>en.
          io_bind (perform (SignRegistryEntry en path) (signRegistryEntry W en path)) (\<lambda>sig.
          io_bind (postSignedEntry D W opts' publicKey en sig) (\<lambda>_.
            ret (Inr (data en)))))))"

section \<open>A small instance\<close>

text \<open>
  One concrete choice of the collaborators, on which the model runs: hexadecimal
  coding as usual, and stand-ins for hashing and signing (the hash of an entry lists its
  fields, a signature is the key followed by the message). \<^verbatim>\<open>JSON.parse\<close> is given by
  the table of the texts it is asked to parse. The helpers for skylink strings do what
  the specification says of them: \<^verbatim>\<open>formatSkylink\<close> puts the prefix \<^verbatim>\<open>sia:\<close> before a link
  that lacks it, and the validation of a skylink string returns the bare link of a bare
  or prefixed string and throws on a string that holds no link.
\<close>

definition demo_hex_value :: "char \<Rightarrow> nat option" where
  "demo_hex_value c = map_of
     [(CHR ''0'', 0), (CHR ''1'', 1), (CHR ''2'', 2), (CHR ''3'', 3), (CHR ''4'', 4),
      (CHR ''5'', 5), (CHR ''6'', 6), (CHR ''7'', 7), (CHR ''8'', 8), (CHR ''9'', 9),
      (CHR ''a'', 10), (CHR ''b'', 11), (CHR ''c'', 12), (CHR ''d'', 13), (CHR ''e'', 14),
      (CHR ''f'', 15)] c"

fun demo_hexToUint8Array :: "string \<Rightarrow> error + bytes" where
  "demo_hexToUint8Array [] = Inr []"
| "demo_hexToUint8Array [a] = Inl (ValidationError ''str'')"
| "demo_hexToUint8Array (a # b # cs) =
     (case (demo_hex_value a, demo_hex_value b) of
        (Some x, Some y) \<Rightarrow>
          and_then (demo_hexToUint8Array cs) (\<lambda>bs. Inr (of_nat (16 * x + y) # bs))
      | _ \<Rightarrow> Inl (ValidationError ''str''))"

definition demo_toHexString :: "bytes \<Rightarrow> string" where
  "demo_toHexString bs = concat (map (\<lambda>b. [hex_char (unat b div 16), hex_char (unat b mod 16)]) bs)"

definition demo_utf8 :: "string \<Rightarrow> bytes" where
  "demo_utf8 s = map (\<lambda>c. of_nat (of_char c)) s"

definition demo_trimPrefix :: "string \<Rightarrow> string \<Rightarrow> string" where
  "demo_trimPrefix s p = (if prefix p s then drop (length p) s else s)"

definition demo_BigInt :: "string \<Rightarrow> error + int" where
  "demo_BigInt s =
     (if s \<noteq> [] \<and> list_all is_digit s
      then Inr (foldl (\<lambda>a c. 10 * a + int (of_char c) - 48) 0 s)
      else Inl (External ''SyntaxError''))"

definition demo_deps :: "(string \<times> js) list \<Rightarrow> deps" where
  "demo_deps parses =
     \<lparr>isHexString = (\<lambda>s. list_all (\<lambda>c. demo_hex_value c \<noteq> None) s),
      trimPrefix = demo_trimPrefix,
      ensurePrefix = (\<lambda>s p. if prefix p s then s else p @ s),
      trimUriPrefix = demo_trimPrefix,
      URI_SKYNET_PREFIX = ''sia:'',
      toHexString = demo_toHexString,
      hexToUint8Array = demo_hexToUint8Array,
      stringToUint8ArrayUtf8 = demo_utf8,
      uint8ArrayToStringUtf8 = map (\<lambda>b. char_of (unat b)),
      hashDataKey = demo_utf8,
      hashRegistryEntry = (\<lambda>en hashed. Inr (demo_utf8 (dataKey en) @ data en @ [of_int (revision en)])),
      nacl_sign = (\<lambda>h sk. Inr (sk @ h)),
      nacl_sign_detached_verify = (\<lambda>h sig pk. Inr (sig = pk @ h)),
      nacl_sign_keyPair_fromSecretKey = (\<lambda>sk. Inr sk),
      makeUrl = (\<lambda>a b. a @ b),
      addUrlQuery = (\<lambda>u q. u @ ''?'' @ concat (map (\<lambda>(k, v). k @ ''='' @ v @ ''&'') q)),
      JSON_parse = map_of parses,
      JSON_stringify = (\<lambda>v. ''{}''),
      BigInt = demo_BigInt,
      formatSkylink = (\<lambda>s. if prefix ''sia:'' s then s else ''sia:'' @ s),
      validateSkylinkString = (\<lambda>s. if s = ''sia:'' then Inl (ValidationError ''skylink'') else Inr (demo_trimPrefix s ''sia:'')),
      encodeSkylinkBase64 = demo_toHexString,
      decodeSkylinkBase64 = demo_hexToUint8Array,
      decodeSkylink = (\<lambda>s. demo_hexToUint8Array (demo_trimPrefix s ''sia:'')),
      deriveDiscoverableFileTweak = (\<lambda>p. demo_toHexString (demo_utf8 p))\<rparr>"

definition demo_options :: options where
  "demo_options = \<lparr>hashedDataKeyHex = True, endpointGetEntry = ''/skynet/registry'',
     endpointSetEntry = ''/skynet/registry'', cachedDataLink = None\<rparr>"

text \<open>
  The hexadecimal text of a data link of 34 bytes \<^verbatim>\<open>0x01\<close>, the signature of the entry
  that holds it at revision 5, the hexadecimal text of the zero-filled sentinel, and the
  skylink an upload returns.
\<close>

definition demo_data_hex :: string where
  "demo_data_hex = ''01010101010101010101010101010101010101010101010101010101010101010101''"

definition demo_sig_hex :: string where
  "demo_sig_hex = ''ab6b'' @ demo_data_hex @ ''05''"

definition demo_zero_hex :: string where
  "demo_zero_hex = ''00000000000000000000000000000000000000000000000000000000000000000000''"

definition demo_skylink :: string where
  "demo_skylink = ''sia:'' @ demo_data_hex"

definition demo_zero_skylink :: string where
  "demo_zero_skylink = ''sia:'' @ demo_zero_hex"

definition demo_world :: "(AxiosError + string option) \<Rightarrow> js \<Rightarrow> world" where
  "demo_world answer content =
     \<lparr>portalUrl = ''https://p'',
      registry_get = (\<lambda>url. answer),
      registry_post = (\<lambda>body. None),
      uploadFile = (\<lambda>f. Inr demo_skylink),
      getFileContent = (\<lambda>l. Inr content),
      userID = Inr ''ab'',
      signRegistryEntry = (\<lambda>en path. Inr [1])\<rparr>"

text \<open>
  A registry response for the public key \<^verbatim>\<open>ab\<close> and the data key \<^verbatim>\<open>k\<close>, with revision 5:
  the text the portal sends, the text after the quotes are added, and the object it
  parses to.
\<close>

definition demo_body :: "string \<Rightarrow> string \<Rightarrow> string \<Rightarrow> string" where
  \<open>demo_body data_hex rv sig_hex =
     ''{"data":"'' @ data_hex @ ''","revision":'' @ rv @ '',"signature":"'' @ sig_hex @ ''"}''\<close>

definition demo_body_quoted :: "string \<Rightarrow> string \<Rightarrow> string \<Rightarrow> string" where
  \<open>demo_body_quoted data_hex rv sig_hex =
     ''{"data":"'' @ data_hex @ ''","revision":"'' @ rv @ ''","signature":"'' @ sig_hex @ ''"}''\<close>

definition demo_parsed :: "string \<Rightarrow> string \<Rightarrow> string \<Rightarrow> js" where
  "demo_parsed data_hex rv sig_hex =
     JObj [(''data'', JStr data_hex), (''revision'', JStr rv), (''signature'', JStr sig_hex)]"

definition demo_deps_for :: "string \<Rightarrow> string \<Rightarrow> string \<Rightarrow> deps" where
  "demo_deps_for data_hex rv sig_hex =
     demo_deps [(demo_body_quoted data_hex rv sig_hex, demo_parsed data_hex rv sig_hex)]"

definition demo_found :: "string \<Rightarrow> string \<Rightarrow> string \<Rightarrow> js \<Rightarrow> world" where
  "demo_found data_hex rv sig_hex content =
     demo_world (Inr (Some (demo_body data_hex rv sig_hex))) content"

definition demo_not_found :: world where
  "demo_not_found =
     demo_world (Inl \<lparr>response_status = Some (Some 404), message = ''Not Found''\<rparr>) (JObj [])"

definition demo_url :: string where
  "demo_url = ''https://p/skynet/registry?publickey=ed25519:ab&datakey=k&timeout=5&''"

definition demo_wrapped :: js where
  "demo_wrapped = JObj [(''_data'', JObj [(''a'', JNum 1)]), (''_v'', JNum 2)]"


definition demo_set_post :: PostData where
  "demo_set_post =
     \<lparr>post_key = [0xab], post_datakey = ''k'', post_revision = ''0'',
      post_data = replicate 34 1,
      post_signature = [0xab, 0x6b] @ replicate 34 1 @ [0]\<rparr>"

definition demo_file :: File where
  "demo_file = \<lparr>file_content = ''{}'', file_name = ''dk:k'', file_type = ''application/json''\<rparr>"

text \<open>
  A second instance, which differs from the first in hashing and signing. Its stand-ins
  keep the sizes that \<^verbatim>\<open>tweetnacl\<close> documents: a secret key has 64 bytes, of which the last 32 are the public key;
  \<^verbatim>\<open>sign(msg, secretKey)\<close> returns the signed message, that is the 64 bytes of the signature
  followed by the message; \<^verbatim>\<open>sign.detached.verify(msg, sig, publicKey)\<close> throws unless the
  signature has 64 bytes and the public key 32. The hash of an entry has 32 bytes. The
  signature itself is a stand-in: the public key followed by the message.
\<close>

definition sized_signature :: "bytes \<Rightarrow> bytes \<Rightarrow> bytes" where
  "sized_signature pk msg = take 64 (pk @ msg @ replicate 64 0)"

definition sized_deps :: "(string \<times> js) list \<Rightarrow> deps" where
  "sized_deps parses = (demo_deps parses)
     \<lparr>hashRegistryEntry := (\<lambda>en hashed.
        Inr (take 32 (demo_utf8 (dataKey en) @ data en @ [of_int (revision en)] @ replicate 32 0))),
      nacl_sign := (\<lambda>msg sk.
        if length sk \<noteq> 64 then Inl (External ''bad secret key size'')
        else Inr (sized_signature (drop 32 sk) msg @ msg)),
      nacl_sign_detached_verify := (\<lambda>msg sig pk.
        if length sig \<noteq> 64 then Inl (External ''bad signature size'')
        else if length pk \<noteq> 32 then Inl (External ''bad public key size'')
        else Inr (sig = sized_signature pk msg)),
      nacl_sign_keyPair_fromSecretKey := (\<lambda>sk.
        if length sk \<noteq> 64 then Inl (External ''bad secret key size'')
        else Inr (drop 32 sk))\<rparr>"

text \<open>
  A secret key of that instance in hexadecimal, its public key, an entry that holds the
  deletion sentinel, and the hash of that entry.
\<close>

definition sized_key :: string where
  "sized_key = ''0101010101010101010101010101010101010101010101010101010101010101abababababababababababababababababababababababababababababababab''"

definition sized_public_key :: bytes where
  "sized_public_key = replicate 32 0xab"

definition sized_entry :: RegistryEntry where
  "sized_entry = \<lparr>dataKey = ''k'', data = replicate 34 0, revision = 0\<rparr>"

definition sized_hash :: bytes where
  "sized_hash = 0x6b # replicate 31 0"








section \<open>Basic facts\<close>

lemma io_bind_ret_Inr [simp]: "io_bind (ret (Inr x)) f = f x"
  by (simp add: io_bind_def ret_def)

lemma io_bind_ret_Inl [simp]: "io_bind (ret (Inl e)) f = (Inl e, [])"
  by (simp add: io_bind_def ret_def)

lemma and_then_Inr [simp]: "and_then (Inr x) f = f x"
  by (simp add: and_then_def)

lemma and_then_Inl [simp]: "and_then (Inl e) f = Inl e"
  by (simp add: and_then_def)

lemma and_then_eq_Inr: "and_then m f = Inr y \<longleftrightarrow> (\<exists>x. m = Inr x \<and> f x = Inr y)"
  by (cases m) simp_all

lemma fst_io_bind:
  "fst (io_bind m f) = (case fst m of Inl e \<Rightarrow> Inl e | Inr x \<Rightarrow> fst (f x))"
  by (simp add: io_bind_def split: sum.splits)

lemma snd_io_bind:
  "snd (io_bind m f) = (case fst m of Inl e \<Rightarrow> snd m | Inr x \<Rightarrow> snd m @ snd (f x))"
  by (simp add: io_bind_def split: sum.splits)

lemma fst_ret [simp]: "fst (ret r) = r"
  by (simp add: ret_def)

lemma snd_ret [simp]: "snd (ret r) = []"
  by (simp add: ret_def)

lemma fst_perform [simp]: "fst (perform ev r) = r"
  by (simp add: perform_def)

lemma snd_perform [simp]: "snd (perform ev r) = [ev]"
  by (simp add: perform_def)

lemma fst_io_bind_Inr:
  "fst (io_bind m f) = Inr r \<longleftrightarrow> (\<exists>x. fst m = Inr x \<and> fst (f x) = Inr r)"
  by (cases "fst m") (simp_all add: fst_io_bind)

lemma replicate_34:
  "replicate 34 x = [x,x,x,x,x,x,x,x,x,x,x,x,x,x,x,x,x,x,x,x,x,x,x,x,x,x,x,x,x,x,x,x,x,x]"
  by (simp add: eval_nat_numeral)

lemmas model_defs =
  getEntry_def getEntryUrl_def getEntryUrlForPortal_def validatePublicKey_def
  getEntry_verified_def transformResponse_def handleGetEntryErrResponse_def
  perform_def ED25519_PREFIX_def DEFAULT_GET_ENTRY_TIMEOUT_def
  match_REGEX_REVISION_NO_QUOTES_def match_REGEX_REVISION_WITH_QUOTES_def
  add_revision_quotes_def strip_revision_quotes_def
  revision_key_def dquote_def is_space_def is_digit_def

lemmas demo_defs =
  demo_deps_def demo_world_def demo_options_def demo_hex_value_def demo_toHexString_def
  demo_utf8_def demo_trimPrefix_def demo_BigInt_def demo_body_def demo_body_quoted_def
  demo_parsed_def demo_url_def hex_char_def demo_deps_for_def demo_found_def
  demo_not_found_def demo_data_hex_def demo_sig_hex_def demo_zero_hex_def

section \<open>Reading an entry\<close>

lemma getEntry_fulfilled:
  assumes "getEntryUrl D W publicKey dk opts = Inr url"
  shows "getEntry D W opts publicKey dk =
     ((case registry_get W url of
         Inl err \<Rightarrow> handleGetEntryErrResponse err
       | Inr raw \<Rightarrow> getEntry_verified D opts publicKey dk (transformResponse D raw)),
      [RegistryGet url])"
  using assms by (simp add: getEntry_def perform_def)

lemma getEntry_verified_Inr:
  assumes "getEntry_verified D opts publicKey dk rd = Inr se"
  shows "\<exists>en sig h pk. se = \<lparr>entry = Some en, signature = Some sig\<rparr> \<and> dataKey en = dk
      \<and> hashRegistryEntry D en (hashedDataKeyHex opts) = Inr h
      \<and> hexToUint8Array D publicKey = Inr pk
      \<and> nacl_sign_detached_verify D h sig pk = Inr True"
  using assms
  by (auto simp: getEntry_verified_def and_then_eq_Inr Let_def split: if_splits option.splits)

text \<open>
  C3. After a fulfilled (2xx) registry GET, \<^verbatim>\<open>getEntry\<close> hashes the entry it built from
  the response and verifies the returned signature over that hash with the caller's
  public key. Whatever it returns is a signed entry for which that verification
  answered true; and when the verification of the entry built from the response answers
  false, the call fails with the integrity error, so the entry is not returned.
\<close>

theorem getEntry_returns_only_verified:
  assumes "getEntryUrl D W publicKey dk opts = Inr url"
      and "registry_get W url = Inr raw"
  shows "(\<forall>se. fst (getEntry D W opts publicKey dk) = Inr se \<longrightarrow>
            (\<exists>en sig h pk. se = \<lparr>entry = Some en, signature = Some sig\<rparr> \<and> dataKey en = dk
               \<and> hashRegistryEntry D en (hashedDataKeyHex opts) = Inr h
               \<and> hexToUint8Array D publicKey = Inr pk
               \<and> nacl_sign_detached_verify D h sig pk = Inr True))
       \<and> (\<forall>data_hex revision_str signature_hex rev sig d h pk.
            as_string (get_prop (transformResponse D raw) ''data'') = Some data_hex
          \<and> as_string (get_prop (transformResponse D raw) ''revision'') = Some revision_str
          \<and> as_string (get_prop (transformResponse D raw) ''signature'') = Some signature_hex
          \<and> BigInt D revision_str = Inr rev
          \<and> hexToUint8Array D signature_hex = Inr sig
          \<and> (if data_hex \<noteq> [] then hexToUint8Array D data_hex else Inr []) = Inr d
          \<and> hashRegistryEntry D \<lparr>dataKey = dk, data = d, revision = rev\<rparr>
                (hashedDataKeyHex opts) = Inr h
          \<and> hexToUint8Array D publicKey = Inr pk
          \<and> nacl_sign_detached_verify D h sig pk = Inr False
          \<longrightarrow> getEntry D W opts publicKey dk = (Inl IntegrityError, [RegistryGet url]))"
proof (intro conjI allI impI)
  fix se
  assume "fst (getEntry D W opts publicKey dk) = Inr se"
  then have "getEntry_verified D opts publicKey dk (transformResponse D raw) = Inr se"
    using assms by (simp add: getEntry_fulfilled)
  then show "\<exists>en sig h pk. se = \<lparr>entry = Some en, signature = Some sig\<rparr> \<and> dataKey en = dk
               \<and> hashRegistryEntry D en (hashedDataKeyHex opts) = Inr h
               \<and> hexToUint8Array D publicKey = Inr pk
               \<and> nacl_sign_detached_verify D h sig pk = Inr True"
    by (rule getEntry_verified_Inr)
next
  fix data_hex revision_str signature_hex rev sig d h pk
  assume a: "as_string (get_prop (transformResponse D raw) ''data'') = Some data_hex
          \<and> as_string (get_prop (transformResponse D raw) ''revision'') = Some revision_str
          \<and> as_string (get_prop (transformResponse D raw) ''signature'') = Some signature_hex
          \<and> BigInt D revision_str = Inr rev
          \<and> hexToUint8Array D signature_hex = Inr sig
          \<and> (if data_hex \<noteq> [] then hexToUint8Array D data_hex else Inr []) = Inr d
          \<and> hashRegistryEntry D \<lparr>dataKey = dk, data = d, revision = rev\<rparr>
                (hashedDataKeyHex opts) = Inr h
          \<and> hexToUint8Array D publicKey = Inr pk
          \<and> nacl_sign_detached_verify D h sig pk = Inr False"
  then have "transformResponse D raw \<noteq> JNull" "transformResponse D raw \<noteq> JUndefined"
    by auto
  with a have "getEntry_verified D opts publicKey dk (transformResponse D raw)
      = Inl IntegrityError"
    by (simp add: getEntry_verified_def Let_def)
  then show "getEntry D W opts publicKey dk = (Inl IntegrityError, [RegistryGet url])"
    using assms by (simp add: getEntry_fulfilled)
qed

theorem getEntry_returns_only_verified_witness:
  "getEntryUrl (demo_deps_for ''00'' ''5'' ''ab6b0005'') (demo_found ''00'' ''5'' ''ab6b0005'' JNull)
      ''ab'' ''k'' demo_options = Inr demo_url
   \<and> registry_get (demo_found ''00'' ''5'' ''ab6b0005'' JNull) demo_url
       = Inr (Some (demo_body ''00'' ''5'' ''ab6b0005''))
   \<and> fst (getEntry (demo_deps_for ''00'' ''5'' ''ab6b0005'') (demo_found ''00'' ''5'' ''ab6b0005'' JNull)
             demo_options ''ab'' ''k'')
       = Inr \<lparr>entry = Some \<lparr>dataKey = ''k'', data = [0], revision = 5\<rparr>,
              signature = Some [0xab, 0x6b, 0, 5]\<rparr>
   \<and> nacl_sign_detached_verify (demo_deps []) [0x6b, 0, 5] [0xab, 0x6b, 0, 5] [0xab] = Inr True
   \<and> nacl_sign_detached_verify (demo_deps []) [0x6b, 0, 5] [0xab, 0x6b, 0, 6] [0xab] = Inr False
   \<and> getEntry (demo_deps_for ''00'' ''5'' ''ab6b0006'') (demo_found ''00'' ''5'' ''ab6b0006'' JNull)
        demo_options ''ab'' ''k''
       = (Inl IntegrityError, [RegistryGet demo_url])"
  using getEntry_returns_only_verified
          [of "demo_deps_for ''00'' ''5'' ''ab6b0005''" "demo_found ''00'' ''5'' ''ab6b0005'' JNull"
              "''ab''" "''k''" demo_options demo_url "Some (demo_body ''00'' ''5'' ''ab6b0005'')"]
        getEntry_returns_only_verified
          [of "demo_deps_for ''00'' ''5'' ''ab6b0006''" "demo_found ''00'' ''5'' ''ab6b0006'' JNull"
              "''ab''" "''k''" demo_options demo_url "Some (demo_body ''00'' ''5'' ''ab6b0006'')"]
  by (simp add: model_defs demo_defs)

text \<open>
  C4. A registry GET rejected with status 404 is no error: \<^verbatim>\<open>getEntry\<close> returns the
  signed entry whose entry and signature are both \<^verbatim>\<open>null\<close>. A GET rejected with any other
  HTTP status is thrown on to the caller as the same error object, after that one
  request and no other.
\<close>

theorem getEntry_not_found_is_absent:
  assumes "getEntryUrl D W publicKey dk opts = Inr url"
      and "registry_get W url = Inl err"
      and "response_status err = Some (Some st)"
      and "st \<noteq> 0"
  shows "getEntry D W opts publicKey dk =
           (if st = 404 then Inr \<lparr>entry = None, signature = None\<rparr> else Inl (Rethrown err),
            [RegistryGet url])"
  using assms by (simp add: getEntry_fulfilled handleGetEntryErrResponse_def)

theorem getEntry_not_found_is_absent_witness:
  "getEntry (demo_deps []) demo_not_found demo_options ''ab'' ''k''
     = (Inr \<lparr>entry = None, signature = None\<rparr>, [RegistryGet demo_url])
   \<and> getEntry (demo_deps [])
      (demo_world (Inl \<lparr>response_status = Some (Some 500), message = ''Internal''\<rparr>) JNull)
      demo_options ''ab'' ''k''
     = (Inl (Rethrown \<lparr>response_status = Some (Some 500), message = ''Internal''\<rparr>),
        [RegistryGet demo_url])"
proof -
  have u: "getEntryUrl (demo_deps []) (demo_world a c) ''ab'' ''k'' demo_options = Inr demo_url"
    for a c
    by (simp add: model_defs demo_defs)
  have g: "registry_get (demo_world a c) demo_url = a" for a c
    by (simp add: demo_world_def)
  show ?thesis
    unfolding demo_not_found_def
    using getEntry_not_found_is_absent [OF u g, of _ 404]
          getEntry_not_found_is_absent [OF u g, of _ 500]
    by simp
qed

section \<open>The events of the operations\<close>

lemma snd_getEntry:
  "snd (getEntry D W opts publicKey dk) =
     (case getEntryUrl D W publicKey dk opts of Inl e \<Rightarrow> [] | Inr url \<Rightarrow> [RegistryGet url])"
  by (simp add: getEntry_def snd_io_bind split: sum.splits)

lemma snd_getSkyDBRegistryEntry:
  "snd (getSkyDBRegistryEntry D W opts publicKey dk) = snd (getEntry D W opts publicKey dk)"
  by (simp add: getSkyDBRegistryEntry_def snd_io_bind split: sum.splits)

lemma fst_getSkyDBRegistryEntry:
  "fst (getSkyDBRegistryEntry D W opts publicKey dk) =
     (case fst (getEntry D W opts publicKey dk) of
        Inl e \<Rightarrow> Inl e
      | Inr se \<Rightarrow> Inr (case entry se of None \<Rightarrow> None
                        | Some en \<Rightarrow> if data en = EMPTY_SKYLINK then None else Some en))"
  by (simp add: getSkyDBRegistryEntry_def fst_io_bind areEqualUint8Arrays_def
      split: sum.splits option.splits)

lemma no_download_in_getEntry:
  "Download l \<notin> set (snd (getEntry D W opts publicKey dk))"
  by (simp add: snd_getEntry split: sum.splits)

lemma postSignedEntry_events:
  "snd (postSignedEntry D W opts publicKey en sig) = []
   \<or> (\<exists>d. snd (postSignedEntry D W opts publicKey en sig) = [RegistryPost d (transformRequest d)]
          \<and> post_data d = data en
          \<and> post_revision d = bigint_toString (revision en)
          \<and> post_signature d = sig)"
  by (simp add: postSignedEntry_def snd_io_bind Let_def split: sum.splits)

lemma setEntry_events:
  "snd (setEntry D W opts privateKey en) = []
   \<or> (\<exists>d. snd (setEntry D W opts privateKey en) = [RegistryPost d (transformRequest d)]
          \<and> post_data d = data en
          \<and> post_revision d = bigint_toString (revision en))"
  using postSignedEntry_events [of D W opts _ en]
  by (simp add: setEntry_def snd_io_bind split: sum.splits) blast






lemma fst_getEntry_Inr_events:
  assumes "fst (getEntry D W opts publicKey dk) = Inr se"
  shows "\<exists>url. snd (getEntry D W opts publicKey dk) = [RegistryGet url]"
  using assms by (simp add: getEntry_def fst_io_bind snd_io_bind split: sum.splits)






lemma fst_Promise_all_Inr:
  "fst (Promise_all ord a b) = Inr xy \<longleftrightarrow> fst a = Inr (fst xy) \<and> fst b = Inr (snd xy)"
  by (cases ord; cases xy) (auto simp: Promise_all_def split: sum.splits)

lemma snd_Promise_all_Inr:
  assumes "fst (Promise_all ord a b) = Inr xy"
  shows "snd (Promise_all ord a b) =
           (case ord of FirstSettlesFirst \<Rightarrow> snd a @ snd b | SecondSettlesFirst \<Rightarrow> snd b @ snd a)"
  using assms by (cases ord) (auto simp: Promise_all_def split: sum.splits)

lemma set_snd_Promise_all:
  "set (snd (Promise_all ord a b)) \<subseteq> set (snd a) \<union> set (snd b)"
  by (cases ord) (auto simp: Promise_all_def split: sum.splits)

lemma getOrCreateRegistryEntry_shape:
  "\<exists>fl k. \<forall>ord. getOrCreateRegistryEntry D W ord opts publicKey dk json
      = io_bind (Promise_all ord (getEntry D W opts publicKey dk)
                   (perform (Upload fl) (uploadFile W fl)))
          (\<lambda>xy. ret (k xy))"
  unfolding getOrCreateRegistryEntry_def Let_def case_prod_beta
  by (intro exI allI) (rule refl)

lemma getOrCreateRegistryEntry_no_post:
  "RegistryPost p w \<notin> set (snd (getOrCreateRegistryEntry D W ord opts publicKey dk json))"
proof -
  obtain fl k where sh: "getOrCreateRegistryEntry D W ord opts publicKey dk json
      = io_bind (Promise_all ord (getEntry D W opts publicKey dk)
                   (perform (Upload fl) (uploadFile W fl)))
          (\<lambda>xy. ret (k xy))"
    using getOrCreateRegistryEntry_shape by blast
  have "RegistryPost p w \<notin> set (snd (getEntry D W opts publicKey dk))"
    by (simp add: snd_getEntry split: sum.splits)
  then have "RegistryPost p w \<notin> set (snd (Promise_all ord (getEntry D W opts publicKey dk)
                   (perform (Upload fl) (uploadFile W fl))))"
    using set_snd_Promise_all [of ord "getEntry D W opts publicKey dk"
        "perform (Upload fl) (uploadFile W fl)"]
    by auto
  then show ?thesis
    by (simp add: sh snd_io_bind split: sum.splits)
qed

lemma getOrCreateRegistryEntry_Inr:
  assumes "fst (getOrCreateRegistryEntry D W ord opts publicKey dk json) = Inr r"
  shows "\<exists>url fl skylink se.
           snd (getOrCreateRegistryEntry D W ord opts publicKey dk json)
             = (case ord of FirstSettlesFirst \<Rightarrow> [RegistryGet url, Upload fl]
                | SecondSettlesFirst \<Rightarrow> [Upload fl, RegistryGet url])
         \<and> uploadFile W fl = Inr skylink
         \<and> fst (getEntry D W opts publicKey dk) = Inr se"
proof -
  obtain fl k where sh: "getOrCreateRegistryEntry D W ord opts publicKey dk json
      = io_bind (Promise_all ord (getEntry D W opts publicKey dk)
                   (perform (Upload fl) (uploadFile W fl)))
          (\<lambda>xy. ret (k xy))"
    using getOrCreateRegistryEntry_shape by blast
  let ?pa = "Promise_all ord (getEntry D W opts publicKey dk)
               (perform (Upload fl) (uploadFile W fl))"
  from assms obtain xy where xy: "fst ?pa = Inr xy"
    by (auto simp: sh fst_io_bind split: sum.splits)
  then have se: "fst (getEntry D W opts publicKey dk) = Inr (fst xy)"
    and up: "uploadFile W fl = Inr (snd xy)"
    by (simp_all add: fst_Promise_all_Inr)
  from fst_getEntry_Inr_events [OF se] obtain url
    where url: "snd (getEntry D W opts publicKey dk) = [RegistryGet url]"
    by blast
  have "snd (getOrCreateRegistryEntry D W ord opts publicKey dk json) = snd ?pa"
    using xy by (simp add: sh snd_io_bind)
  also have "\<dots> = (case ord of FirstSettlesFirst \<Rightarrow> [RegistryGet url, Upload fl]
                | SecondSettlesFirst \<Rightarrow> [Upload fl, RegistryGet url])"
    by (simp add: snd_Promise_all_Inr [OF xy] url split: settle_order.splits)
  finally show ?thesis
    using se up by blast
qed

lemma fst_Promise_all_order:
  "fst (Promise_all FirstSettlesFirst a b) = Inr xy
   \<longleftrightarrow> fst (Promise_all SecondSettlesFirst a b) = Inr xy"
  by (simp add: fst_Promise_all_Inr)

lemma getOrCreateRegistryEntry_order_irrelevant:
  "fst (getOrCreateRegistryEntry D W FirstSettlesFirst opts publicKey dk json) = Inr r
   \<longleftrightarrow> fst (getOrCreateRegistryEntry D W SecondSettlesFirst opts publicKey dk json) = Inr r"
proof -
  obtain fl k where sh: "\<And>ord. getOrCreateRegistryEntry D W ord opts publicKey dk json
      = io_bind (Promise_all ord (getEntry D W opts publicKey dk)
                   (perform (Upload fl) (uploadFile W fl)))
          (\<lambda>xy. ret (k xy))"
    using getOrCreateRegistryEntry_shape by blast
  have "fst (io_bind m (\<lambda>xy. ret (k xy))) = Inr r \<longleftrightarrow> (\<exists>xy. fst m = Inr xy \<and> k xy = Inr r)"
    for m :: "(SignedRegistryEntry \<times> string) io"
    by (cases "fst m") (simp_all add: fst_io_bind)
  then show ?thesis
    by (simp add: sh fst_Promise_all_Inr)
qed

lemma setJSON_cases:
  "(\<exists>e. \<forall>ord. setJSON D W ord opts privateKey dk json = (Inl e, []))
   \<or> (\<exists>publicKey. \<forall>ord. setJSON D W ord opts privateKey dk json =
         io_bind (getOrCreateRegistryEntry D W ord opts publicKey dk json) (\<lambda>r.
         io_bind (setEntry D W opts privateKey (fst r)) (\<lambda>_.
           ret (Inr \<lparr>json_data = Some json, dataLink = Some (formatSkylink D (snd r))\<rparr>))))"
proof (cases "validateHexString D ''privateKey'' privateKey")
  case (Inl e)
  then show ?thesis by (simp add: setJSON_def)
next
  case v: (Inr u)
  show ?thesis
  proof (cases "validateObject ''json'' json")
    case (Inl e)
    with v show ?thesis by (simp add: setJSON_def)
  next
    case o: (Inr u')
    show ?thesis
    proof (cases "and_then (hexToUint8Array D privateKey) (nacl_sign_keyPair_fromSecretKey D)")
      case (Inl e)
      with v o show ?thesis by (simp add: setJSON_def)
    next
      case (Inr publicKeyArray)
      with v o have "\<forall>ord. setJSON D W ord opts privateKey dk json =
         io_bind (getOrCreateRegistryEntry D W ord opts (toHexString D publicKeyArray) dk json)
           (\<lambda>r. io_bind (setEntry D W opts privateKey (fst r)) (\<lambda>_.
              ret (Inr \<lparr>json_data = Some json, dataLink = Some (formatSkylink D (snd r))\<rparr>)))"
        unfolding setJSON_def case_prod_unfold by simp
      then show ?thesis by blast
    qed
  qed
qed

lemma post_after_join:
  assumes run: "m = io_bind (getOrCreateRegistryEntry D W ord opts publicKey dk json) (\<lambda>r.
         io_bind (setEntry D W opts privateKey (fst r)) (\<lambda>_. ret (k r)))"
      and post: "RegistryPost p w \<in> set (snd m)"
  shows "\<exists>url fl skylink se.
           snd m = (case ord of FirstSettlesFirst \<Rightarrow> [RegistryGet url, Upload fl]
                    | SecondSettlesFirst \<Rightarrow> [Upload fl, RegistryGet url]) @ [RegistryPost p w]
         \<and> uploadFile W fl = Inr skylink
         \<and> fst (getEntry D W opts publicKey dk) = Inr se"
proof (cases "fst (getOrCreateRegistryEntry D W ord opts publicKey dk json)")
  case (Inl e)
  with post show ?thesis
    by (simp add: run snd_io_bind getOrCreateRegistryEntry_no_post)
next
  case (Inr r)
  from getOrCreateRegistryEntry_Inr [OF Inr] obtain url fl skylink se
    where tr: "snd (getOrCreateRegistryEntry D W ord opts publicKey dk json)
             = (case ord of FirstSettlesFirst \<Rightarrow> [RegistryGet url, Upload fl]
                | SecondSettlesFirst \<Rightarrow> [Upload fl, RegistryGet url])"
      and up: "uploadFile W fl = Inr skylink"
      and se: "fst (getEntry D W opts publicKey dk) = Inr se"
    by blast
  have sm: "snd m = snd (getOrCreateRegistryEntry D W ord opts publicKey dk json)
              @ snd (setEntry D W opts privateKey (fst r))"
    using Inr by (simp add: run snd_io_bind split: sum.splits)
  have "RegistryPost p w \<in> set (snd (setEntry D W opts privateKey (fst r)))"
    using post by (simp add: sm getOrCreateRegistryEntry_no_post)
  then have "snd (setEntry D W opts privateKey (fst r)) = [RegistryPost p w]"
    using setEntry_events [of D W opts privateKey "fst r"] by auto
  then show ?thesis
    using tr up se by (simp add: sm) blast
qed

section \<open>Evaluating the instance\<close>

lemma demo_getEntry_not_found:
  "getEntry (demo_deps ps) demo_not_found demo_options ''ab'' ''k''
     = (Inr \<lparr>entry = None, signature = None\<rparr>, [RegistryGet demo_url])"
  by (simp add: model_defs demo_defs)

lemma demo_getEntry_found:
  "getEntry (demo_deps_for demo_data_hex ''5'' demo_sig_hex)
      (demo_found demo_data_hex ''5'' demo_sig_hex c) (demo_options\<lparr>cachedDataLink := l\<rparr>)
      ''ab'' ''k''
   = (Inr \<lparr>entry = Some \<lparr>dataKey = ''k'', data = replicate 34 1, revision = 5\<rparr>,
            signature = Some ([0xab, 0x6b] @ replicate 34 1 @ [5])\<rparr>, [RegistryGet demo_url])"
  by (simp add: model_defs demo_defs replicate_34)

lemma demo_setEntry:
  "setEntry (demo_deps ps) demo_not_found demo_options ''ab''
      \<lparr>dataKey = ''k'', data = d, revision = 0\<rparr>
   = (Inr (), [RegistryPost
        \<lparr>post_key = [0xab], post_datakey = ''k'', post_revision = ''0'', post_data = d,
         post_signature = [0xab, 0x6b] @ d @ [0]\<rparr>
        (transformRequest
          \<lparr>post_key = [0xab], post_datakey = ''k'', post_revision = ''0'', post_data = d,
           post_signature = [0xab, 0x6b] @ d @ [0]\<rparr>)])"
  by (simp add: setEntry_def postSignedEntry_def signEntry_def validateHexString_def
      assertUint64_def MAX_REVISION_def bigint_toString_def string_of_nat.simps digit_char_def
      perform_def demo_defs Let_def)

lemma demo_key:
  "isHexString (demo_deps ps) ''ab''"
  "and_then (hexToUint8Array (demo_deps ps) ''ab'') (nacl_sign_keyPair_fromSecretKey (demo_deps ps))
     = Inr [0xab]"
  "toHexString (demo_deps ps) [0xab] = ''ab''"
  by (simp_all add: demo_defs)


lemma demo_upload:
  "uploadFile demo_not_found fl = Inr demo_skylink"
  by (simp add: demo_defs)

lemma demo_skylink_decoded:
  "decodeSkylinkBase64 (demo_deps ps)
      (trimUriPrefix (demo_deps ps) demo_skylink (URI_SKYNET_PREFIX (demo_deps ps)))
      = Inr (replicate 34 1)"
  "formatSkylink (demo_deps ps)
      (trimUriPrefix (demo_deps ps) demo_skylink (URI_SKYNET_PREFIX (demo_deps ps)))
      = demo_skylink"
  "formatSkylink (demo_deps ps) demo_skylink = demo_skylink"
  by (simp_all add: demo_defs demo_skylink_def replicate_34)

lemma demo_getOrCreateRegistryEntry:
  "getOrCreateRegistryEntry (demo_deps ps) demo_not_found ord demo_options ''ab'' ''k'' json
   = (Inr (\<lparr>dataKey = ''k'', data = replicate 34 1, revision = 0\<rparr>, demo_skylink),
      case ord of FirstSettlesFirst \<Rightarrow> [RegistryGet demo_url, Upload demo_file]
      | SecondSettlesFirst \<Rightarrow> [Upload demo_file, RegistryGet demo_url])"
proof -
  have fl: "\<lparr>file_content = JSON_stringify (demo_deps ps) v,
             file_name = ''dk:'' @ (if \<not> hashedDataKeyHex demo_options then x else ''k''),
             file_type = ''application/json''\<rparr> = demo_file" for v x
    by (simp add: demo_defs demo_file_def)
  show ?thesis
    unfolding getOrCreateRegistryEntry_def Let_def fl
    by (cases ord)
       (simp_all add: Promise_all_def demo_getEntry_not_found demo_upload demo_skylink_decoded
          getNextRevisionFromEntry_def MAX_REVISION_def validateUint8ArrayLen_def
          RAW_SKYLINK_SIZE_def io_bind_def ret_def perform_def)
qed

lemma demo_setJSON:
  "setJSON (demo_deps ps) demo_not_found ord demo_options ''ab'' ''k'' (JObj [(''a'', JNum 1)])
   = (Inr \<lparr>json_data = Some (JObj [(''a'', JNum 1)]), dataLink = Some demo_skylink\<rparr>,
      (case ord of FirstSettlesFirst \<Rightarrow> [RegistryGet demo_url, Upload demo_file]
       | SecondSettlesFirst \<Rightarrow> [Upload demo_file, RegistryGet demo_url])
      @ [RegistryPost demo_set_post (transformRequest demo_set_post)])"
  by (simp add: setJSON_def validateHexString_def validateObject_def demo_key
      demo_getOrCreateRegistryEntry demo_setEntry demo_skylink_decoded io_bind_def ret_def
      demo_set_post_def)

subsection \<open>The instance with the documented sizes\<close>

lemma replicate_32:
  "replicate 32 x = [x,x,x,x,x,x,x,x,x,x,x,x,x,x,x,x,x,x,x,x,x,x,x,x,x,x,x,x,x,x,x,x]"
  by (simp add: eval_nat_numeral)

lemma replicate_31:
  "replicate 31 x = [x,x,x,x,x,x,x,x,x,x,x,x,x,x,x,x,x,x,x,x,x,x,x,x,x,x,x,x,x,x,x]"
  by (simp add: eval_nat_numeral)

lemma sized_deps_sizes:
  "\<forall>m k s. nacl_sign (sized_deps ps) m k = Inr s \<longrightarrow> length s = 64 + length m"
  "\<forall>m s k. length s \<noteq> 64 \<longrightarrow>
     nacl_sign_detached_verify (sized_deps ps) m s k = Inl (External ''bad signature size'')"
  by (auto simp: sized_deps_def sized_signature_def)

lemma sized_key_bytes:
  "hexToUint8Array (sized_deps ps) sized_key = Inr (replicate 32 1 @ sized_public_key)"
  by (simp add: sized_deps_def sized_key_def sized_public_key_def demo_defs replicate_32)

lemma sized_hash_entry:
  "hashRegistryEntry (sized_deps ps) sized_entry hashed = Inr sized_hash"
  "length sized_hash = 32"
  by (simp_all add: sized_deps_def sized_entry_def sized_hash_def demo_defs replicate_34
      replicate_31)

lemma sized_signEntry:
  "signEntry (sized_deps ps) sized_key sized_entry hashed
     = Inr (sized_signature sized_public_key sized_hash @ sized_hash)"
  by (simp add: signEntry_def sized_key_bytes sized_hash_entry)
     (simp add: sized_deps_def sized_public_key_def)










section \<open>Reading a document\<close>

lemma getJSON_downloaded:
  assumes "fst (getSkyDBRegistryEntry D W opts publicKey dk) = Inr (Some en)"
      and "parseDataLink D (data en) True = Inr (rawDataLink, link)"
      and "checkCachedDataLink D rawDataLink (cachedDataLink opts) = Inr False"
  shows "fst (getJSON D W opts publicKey dk) =
           and_then (getFileContent W link) (\<lambda>d. getJSON_fileData d link)"
    and "snd (getJSON D W opts publicKey dk) =
           snd (getSkyDBRegistryEntry D W opts publicKey dk) @ [Download link]"
  using assms
  by (simp_all add: getJSON_def fst_io_bind snd_io_bind and_then_def split: sum.splits)

lemma getJSON_cache_hit:
  assumes "fst (getSkyDBRegistryEntry D W opts publicKey dk) = Inr (Some en)"
      and "parseDataLink D (data en) True = Inr (rawDataLink, link)"
      and "checkCachedDataLink D rawDataLink (cachedDataLink opts) = Inr True"
  shows "getJSON D W opts publicKey dk =
           (Inr \<lparr>json_data = None, dataLink = Some link\<rparr>,
            snd (getEntry D W opts publicKey dk))"
  using assms
  by (simp add: getJSON_def prod_eq_iff fst_io_bind snd_io_bind snd_getSkyDBRegistryEntry)

lemma demo_getSkyDBRegistryEntry:
  "fst (getSkyDBRegistryEntry (demo_deps_for demo_data_hex ''5'' demo_sig_hex)
      (demo_found demo_data_hex ''5'' demo_sig_hex c) (demo_options\<lparr>cachedDataLink := l\<rparr>)
      ''ab'' ''k'')
   = Inr (Some \<lparr>dataKey = ''k'', data = replicate 34 1, revision = 5\<rparr>)"
  by (simp add: fst_getSkyDBRegistryEntry demo_getEntry_found EMPTY_SKYLINK_def
      RAW_SKYLINK_SIZE_def replicate_34)

lemma demo_parseDataLink:
  "parseDataLink (demo_deps ps) (replicate 34 1) True = Inr (demo_data_hex, demo_skylink)"
  by (simp add: parseDataLink_def RAW_SKYLINK_SIZE_def BASE64_ENCODED_SKYLINK_SIZE_def
      demo_defs demo_skylink_def replicate_34 Let_def)

lemma getJSON_cache_invalid:
  assumes "fst (getSkyDBRegistryEntry D W opts publicKey dk) = Inr (Some en)"
      and "parseDataLink D (data en) True = Inr (rawDataLink, link)"
      and "checkCachedDataLink D rawDataLink (cachedDataLink opts) = Inl e"
  shows "getJSON D W opts publicKey dk = (Inl e, snd (getEntry D W opts publicKey dk))"
  using assms
  by (simp add: getJSON_def prod_eq_iff fst_io_bind snd_io_bind snd_getSkyDBRegistryEntry)

lemma parseDataLink_formatted:
  assumes "parseDataLink D d legacy = Inr (rawDataLink, link)"
  shows "link = formatSkylink D rawDataLink"
  using assms by (auto simp: parseDataLink_def Let_def split: if_splits)

text \<open>
  C6, as the specification states it: a \<^verbatim>\<open>cachedDataLink\<close> \<open>L\<close> equal to the resolved data
  link gives \<^verbatim>\<open>{data: null, dataLink: L}\<close> without a download, and a cached link that
  differs is followed by a download. In the instance the entry resolves to the raw link
  \<^const>\<open>demo_data_hex\<close>, whose formatted form is \<^const>\<open>demo_skylink\<close>. The bare link
  \<^const>\<open>demo_data_hex\<close> as cached link names the resolved link, and differs from its
  formatted form as a string: \<^verbatim>\<open>getJSON\<close> downloads nothing and returns the formatted
  link, not \<open>L\<close>. The cached string \<^verbatim>\<open>sia:\<close>, which holds no skylink, differs from the
  resolved link: \<^verbatim>\<open>getJSON\<close> throws after the registry read and downloads nothing.
\<close>

theorem getJSON_cached_link_as_stated_counterexample:
  "parseDataLink (demo_deps_for demo_data_hex ''5'' demo_sig_hex) (replicate 34 1) True
     = Inr (demo_data_hex, demo_skylink)
   \<and> validateSkylinkString (demo_deps_for demo_data_hex ''5'' demo_sig_hex) demo_data_hex
     = Inr demo_data_hex
   \<and> getJSON (demo_deps_for demo_data_hex ''5'' demo_sig_hex)
          (demo_found demo_data_hex ''5'' demo_sig_hex demo_wrapped)
          (demo_options\<lparr>cachedDataLink := Some demo_data_hex\<rparr>) ''ab'' ''k''
     = (Inr \<lparr>json_data = None, dataLink = Some demo_skylink\<rparr>, [RegistryGet demo_url])
   \<and> demo_skylink \<noteq> demo_data_hex
   \<and> getJSON (demo_deps_for demo_data_hex ''5'' demo_sig_hex)
          (demo_found demo_data_hex ''5'' demo_sig_hex demo_wrapped)
          (demo_options\<lparr>cachedDataLink := Some ''sia:''\<rparr>) ''ab'' ''k''
     = (Inl (ValidationError ''skylink''), [RegistryGet demo_url])
   \<and> ''sia:'' \<noteq> demo_skylink"
proof -
  let ?D = "demo_deps_for demo_data_hex ''5'' demo_sig_hex"
  let ?en = "\<lparr>dataKey = ''k'', data = replicate 34 1, revision = 5\<rparr>"
  have v: "validateSkylinkString ?D demo_data_hex = Inr demo_data_hex"
    "validateSkylinkString ?D ''sia:'' = Inl (ValidationError ''skylink'')"
    "demo_skylink \<noteq> demo_data_hex" "''sia:'' \<noteq> demo_skylink" "demo_data_hex \<noteq> []"
    by (simp_all add: demo_defs demo_skylink_def)
  have p: "parseDataLink ?D (data ?en) True = Inr (demo_data_hex, demo_skylink)"
    by (simp add: demo_parseDataLink demo_deps_for_def)
  have hit: "checkCachedDataLink ?D demo_data_hex
      (cachedDataLink (demo_options\<lparr>cachedDataLink := Some demo_data_hex\<rparr>)) = Inr True"
    by (simp add: checkCachedDataLink_def v)
  have bad: "checkCachedDataLink ?D demo_data_hex
      (cachedDataLink (demo_options\<lparr>cachedDataLink := Some ''sia:''\<rparr>))
        = Inl (ValidationError ''skylink'')"
    by (simp add: checkCachedDataLink_def v)
  show ?thesis
    using getJSON_cache_hit
            [OF demo_getSkyDBRegistryEntry [of demo_wrapped "Some demo_data_hex"] p hit]
          getJSON_cache_invalid
            [OF demo_getSkyDBRegistryEntry [of demo_wrapped "Some ''sia:''"] p bad]
          p
    by (simp add: v demo_getEntry_found)
qed

text \<open>
  C6, amended. For a \<^verbatim>\<open>getJSON\<close> whose entry resolves to a data link, the link returned
  is the formatted form of the raw link in the entry. When the caller's \<^verbatim>\<open>cachedDataLink\<close>
  is a valid skylink string that parses to that raw link, \<^verbatim>\<open>getJSON\<close> returns
  \<^verbatim>\<open>{data: null, dataLink}\<close> with the formatted link and downloads nothing. When no
  cached link is supplied, or the supplied one is valid and parses to another link, the
  blob at the resolved data link is downloaded after the registry read. When the
  supplied one is no valid skylink string, \<^verbatim>\<open>getJSON\<close> throws the error of the
  validation after the registry read and downloads nothing.
\<close>

theorem getJSON_cached_short_circuit:
  assumes "fst (getSkyDBRegistryEntry D W opts publicKey dk) = Inr (Some en)"
      and "parseDataLink D (data en) True = Inr (rawDataLink, link)"
  shows "link = formatSkylink D rawDataLink
       \<and> (\<forall>L. cachedDataLink opts = Some L \<and> L \<noteq> []
              \<and> validateSkylinkString D L = Inr rawDataLink \<longrightarrow>
            fst (getJSON D W opts publicKey dk) = Inr \<lparr>json_data = None, dataLink = Some link\<rparr>
            \<and> (\<forall>l. Download l \<notin> set (snd (getJSON D W opts publicKey dk))))
       \<and> (cachedDataLink opts = None \<or> cachedDataLink opts = Some [] \<longrightarrow>
            snd (getJSON D W opts publicKey dk)
              = snd (getEntry D W opts publicKey dk) @ [Download link])
       \<and> (\<forall>L other. cachedDataLink opts = Some L
              \<and> validateSkylinkString D L = Inr other \<and> other \<noteq> rawDataLink \<longrightarrow>
            snd (getJSON D W opts publicKey dk)
              = snd (getEntry D W opts publicKey dk) @ [Download link])
       \<and> (\<forall>L e. cachedDataLink opts = Some L \<and> L \<noteq> []
              \<and> validateSkylinkString D L = Inl e \<longrightarrow>
            getJSON D W opts publicKey dk = (Inl e, snd (getEntry D W opts publicKey dk))
            \<and> (\<forall>l. Download l \<notin> set (snd (getJSON D W opts publicKey dk))))"
proof (intro conjI allI impI)
  show "link = formatSkylink D rawDataLink"
    using assms(2) by (rule parseDataLink_formatted)
next
  fix L
  assume "cachedDataLink opts = Some L \<and> L \<noteq> [] \<and> validateSkylinkString D L = Inr rawDataLink"
  then have hit: "checkCachedDataLink D rawDataLink (cachedDataLink opts) = Inr True"
    by (simp add: checkCachedDataLink_def)
  show "fst (getJSON D W opts publicKey dk) = Inr \<lparr>json_data = None, dataLink = Some link\<rparr>"
    by (simp add: getJSON_cache_hit [OF assms hit])
  fix l
  show "Download l \<notin> set (snd (getJSON D W opts publicKey dk))"
    by (simp add: getJSON_cache_hit [OF assms hit] no_download_in_getEntry)
next
  assume "cachedDataLink opts = None \<or> cachedDataLink opts = Some []"
  then have "checkCachedDataLink D rawDataLink (cachedDataLink opts) = Inr False"
    by (auto simp: checkCachedDataLink_def)
  then show "snd (getJSON D W opts publicKey dk)
      = snd (getEntry D W opts publicKey dk) @ [Download link]"
    by (simp add: getJSON_downloaded(2) [OF assms] snd_getSkyDBRegistryEntry)
next
  fix L other
  assume "cachedDataLink opts = Some L \<and> validateSkylinkString D L = Inr other
            \<and> other \<noteq> rawDataLink"
  then have "checkCachedDataLink D rawDataLink (cachedDataLink opts) = Inr False"
    by (auto simp: checkCachedDataLink_def)
  then show "snd (getJSON D W opts publicKey dk)
      = snd (getEntry D W opts publicKey dk) @ [Download link]"
    by (simp add: getJSON_downloaded(2) [OF assms] snd_getSkyDBRegistryEntry)
next
  fix L e
  assume "cachedDataLink opts = Some L \<and> L \<noteq> [] \<and> validateSkylinkString D L = Inl e"
  then have bad: "checkCachedDataLink D rawDataLink (cachedDataLink opts) = Inl e"
    by (simp add: checkCachedDataLink_def)
  show "getJSON D W opts publicKey dk = (Inl e, snd (getEntry D W opts publicKey dk))"
    by (rule getJSON_cache_invalid [OF assms bad])
  fix l
  show "Download l \<notin> set (snd (getJSON D W opts publicKey dk))"
    by (simp add: getJSON_cache_invalid [OF assms bad] no_download_in_getEntry)
qed

theorem getJSON_cached_short_circuit_witness:
  "fst (getJSON (demo_deps_for demo_data_hex ''5'' demo_sig_hex)
          (demo_found demo_data_hex ''5'' demo_sig_hex demo_wrapped)
          (demo_options\<lparr>cachedDataLink := Some demo_skylink\<rparr>) ''ab'' ''k'')
     = Inr \<lparr>json_data = None, dataLink = Some demo_skylink\<rparr>
   \<and> Download demo_skylink \<notin> set (snd (getJSON (demo_deps_for demo_data_hex ''5'' demo_sig_hex)
          (demo_found demo_data_hex ''5'' demo_sig_hex demo_wrapped)
          (demo_options\<lparr>cachedDataLink := Some demo_skylink\<rparr>) ''ab'' ''k''))
   \<and> fst (getJSON (demo_deps_for demo_data_hex ''5'' demo_sig_hex)
          (demo_found demo_data_hex ''5'' demo_sig_hex demo_wrapped)
          (demo_options\<lparr>cachedDataLink := Some demo_data_hex\<rparr>) ''ab'' ''k'')
     = Inr \<lparr>json_data = None, dataLink = Some demo_skylink\<rparr>
   \<and> snd (getJSON (demo_deps_for demo_data_hex ''5'' demo_sig_hex)
          (demo_found demo_data_hex ''5'' demo_sig_hex demo_wrapped)
          (demo_options\<lparr>cachedDataLink := None\<rparr>) ''ab'' ''k'')
     = [RegistryGet demo_url, Download demo_skylink]
   \<and> snd (getJSON (demo_deps_for demo_data_hex ''5'' demo_sig_hex)
          (demo_found demo_data_hex ''5'' demo_sig_hex demo_wrapped)
          (demo_options\<lparr>cachedDataLink := Some demo_zero_skylink\<rparr>) ''ab'' ''k'')
     = [RegistryGet demo_url, Download demo_skylink]
   \<and> getJSON (demo_deps_for demo_data_hex ''5'' demo_sig_hex)
          (demo_found demo_data_hex ''5'' demo_sig_hex demo_wrapped)
          (demo_options\<lparr>cachedDataLink := Some ''sia:''\<rparr>) ''ab'' ''k''
     = (Inl (ValidationError ''skylink''), [RegistryGet demo_url])"
proof -
  let ?D = "demo_deps_for demo_data_hex ''5'' demo_sig_hex"
  let ?W = "demo_found demo_data_hex ''5'' demo_sig_hex demo_wrapped"
  let ?en = "\<lparr>dataKey = ''k'', data = replicate 34 1, revision = 5\<rparr>"
  have v: "validateSkylinkString ?D demo_skylink = Inr demo_data_hex"
    "validateSkylinkString ?D demo_data_hex = Inr demo_data_hex"
    "validateSkylinkString ?D demo_zero_skylink = Inr demo_zero_hex"
    "validateSkylinkString ?D ''sia:'' = Inl (ValidationError ''skylink'')"
    "demo_zero_hex \<noteq> demo_data_hex" "demo_skylink \<noteq> []" "demo_data_hex \<noteq> []"
    by (simp_all add: demo_defs demo_skylink_def demo_zero_skylink_def)
  have p: "parseDataLink ?D (data ?en) True = Inr (demo_data_hex, demo_skylink)"
    by (simp add: demo_parseDataLink demo_deps_for_def)
  from getJSON_cached_short_circuit
         [OF demo_getSkyDBRegistryEntry [of demo_wrapped "Some demo_skylink"] p]
  have a: "fst (getJSON ?D ?W (demo_options\<lparr>cachedDataLink := Some demo_skylink\<rparr>) ''ab'' ''k'')
             = Inr \<lparr>json_data = None, dataLink = Some demo_skylink\<rparr>
         \<and> Download demo_skylink \<notin> set (snd (getJSON ?D ?W
               (demo_options\<lparr>cachedDataLink := Some demo_skylink\<rparr>) ''ab'' ''k''))"
    by (simp add: v)
  from getJSON_cached_short_circuit
         [OF demo_getSkyDBRegistryEntry [of demo_wrapped "Some demo_data_hex"] p]
  have a': "fst (getJSON ?D ?W (demo_options\<lparr>cachedDataLink := Some demo_data_hex\<rparr>) ''ab'' ''k'')
             = Inr \<lparr>json_data = None, dataLink = Some demo_skylink\<rparr>"
    by (simp add: v)
  from getJSON_cached_short_circuit
         [OF demo_getSkyDBRegistryEntry [of demo_wrapped None] p]
  have b: "snd (getJSON ?D ?W (demo_options\<lparr>cachedDataLink := None\<rparr>) ''ab'' ''k'')
             = [RegistryGet demo_url, Download demo_skylink]"
    by (simp add: demo_getEntry_found)
  from getJSON_cached_short_circuit
         [OF demo_getSkyDBRegistryEntry [of demo_wrapped "Some demo_zero_skylink"] p]
  have c: "snd (getJSON ?D ?W (demo_options\<lparr>cachedDataLink := Some demo_zero_skylink\<rparr>)
                  ''ab'' ''k'')
             = [RegistryGet demo_url, Download demo_skylink]"
    by (simp add: v demo_getEntry_found)
  from getJSON_cached_short_circuit
         [OF demo_getSkyDBRegistryEntry [of demo_wrapped "Some ''sia:''"] p]
  have d: "getJSON ?D ?W (demo_options\<lparr>cachedDataLink := Some ''sia:''\<rparr>) ''ab'' ''k''
             = (Inl (ValidationError ''skylink''), [RegistryGet demo_url])"
    by (simp add: v demo_getEntry_found)
  from a a' b c d show ?thesis by simp
qed

text \<open>
  C7, as the specification states it: a downloaded object that has both the keys
  \<^verbatim>\<open>_data\<close> and \<^verbatim>\<open>_v\<close> is unwrapped. The code tests the two values for truthiness and
  then requires \<^verbatim>\<open>_data\<close> to be an object: the object \<^verbatim>\<open>{"_data": "x", "_v": 2}\<close> has
  both keys and is rejected, and \<^verbatim>\<open>{"_data": {"a": 1}, "_v": 0}\<close> has both keys and is
  returned whole.
\<close>

theorem getJSON_unwraps_by_key_presence_counterexample:
  "has_key (JObj [(''_data'', JStr ''x''), (''_v'', JNum 2)]) ''_data''
   \<and> has_key (JObj [(''_data'', JStr ''x''), (''_v'', JNum 2)]) ''_v''
   \<and> getJSON_fileData (JObj [(''_data'', JStr ''x''), (''_v'', JNum 2)]) ''sia:l''
       = Inl DataNotJSON
   \<and> has_key (JObj [(''_data'', JObj [(''a'', JNum 1)]), (''_v'', JNum 0)]) ''_data''
   \<and> has_key (JObj [(''_data'', JObj [(''a'', JNum 1)]), (''_v'', JNum 0)]) ''_v''
   \<and> getJSON_fileData (JObj [(''_data'', JObj [(''a'', JNum 1)]), (''_v'', JNum 0)]) ''sia:l''
       = Inr \<lparr>json_data = Some (JObj [(''_data'', JObj [(''a'', JNum 1)]), (''_v'', JNum 0)]),
              dataLink = Some ''sia:l''\<rparr>"
  by (simp add: getJSON_fileData_def)

text \<open>
  C7, amended. For the value \<^verbatim>\<open>getJSON\<close> downloads: a value that is \<^verbatim>\<open>null\<close> or not of type
  object is an error. Otherwise, when the values of \<^verbatim>\<open>_data\<close> and \<^verbatim>\<open>_v\<close> are both truthy,
  \<^verbatim>\<open>getJSON\<close> returns the value of \<^verbatim>\<open>_data\<close> if that is an object and fails if it is not;
  and when one of them is missing or falsy, it returns the downloaded value itself.
\<close>

theorem getJSON_unwraps_truthy_wrapper:
  assumes "fst (getSkyDBRegistryEntry D W opts publicKey dk) = Inr (Some en)"
      and "parseDataLink D (data en) True = Inr (rawDataLink, link)"
      and "checkCachedDataLink D rawDataLink (cachedDataLink opts) = Inr False"
      and "getFileContent W link = Inr d"
  shows "fst (getJSON D W opts publicKey dk) =
     (if \<not> typeof_object d \<or> d = JNull then Inl NotJSON
      else if truthy (get_prop d ''_data'') \<and> truthy (get_prop d ''_v'')
        then (if typeof_object (get_prop d ''_data'')
              then Inr \<lparr>json_data = Some (get_prop d ''_data''), dataLink = Some link\<rparr>
              else Inl DataNotJSON)
      else Inr \<lparr>json_data = Some d, dataLink = Some link\<rparr>)"
  using assms by (simp add: getJSON_downloaded getJSON_fileData_def Let_def)

theorem getJSON_unwraps_truthy_wrapper_witness:
  "fst (getJSON (demo_deps_for demo_data_hex ''5'' demo_sig_hex)
          (demo_found demo_data_hex ''5'' demo_sig_hex demo_wrapped)
          (demo_options\<lparr>cachedDataLink := None\<rparr>) ''ab'' ''k'')
     = Inr \<lparr>json_data = Some (JObj [(''a'', JNum 1)]), dataLink = Some demo_skylink\<rparr>
   \<and> fst (getJSON (demo_deps_for demo_data_hex ''5'' demo_sig_hex)
          (demo_found demo_data_hex ''5'' demo_sig_hex (JObj [(''a'', JNum 1)]))
          (demo_options\<lparr>cachedDataLink := None\<rparr>) ''ab'' ''k'')
     = Inr \<lparr>json_data = Some (JObj [(''a'', JNum 1)]), dataLink = Some demo_skylink\<rparr>
   \<and> fst (getJSON (demo_deps_for demo_data_hex ''5'' demo_sig_hex)
          (demo_found demo_data_hex ''5'' demo_sig_hex (JStr ''text''))
          (demo_options\<lparr>cachedDataLink := None\<rparr>) ''ab'' ''k'')
     = Inl NotJSON"
proof -
  let ?D = "demo_deps_for demo_data_hex ''5'' demo_sig_hex"
  let ?en = "\<lparr>dataKey = ''k'', data = replicate 34 1, revision = 5\<rparr>"
  have p: "parseDataLink ?D (data ?en) True = Inr (demo_data_hex, demo_skylink)"
    by (simp add: demo_parseDataLink demo_deps_for_def)
  have c: "checkCachedDataLink ?D demo_data_hex (cachedDataLink (demo_options\<lparr>cachedDataLink := None\<rparr>))
             = Inr False"
    by (simp add: checkCachedDataLink_def)
  have g: "getFileContent (demo_found demo_data_hex ''5'' demo_sig_hex v) demo_skylink = Inr v"
    for v
    by (simp add: demo_defs)
  from getJSON_unwraps_truthy_wrapper
         [OF demo_getSkyDBRegistryEntry [of demo_wrapped None] p c g]
       getJSON_unwraps_truthy_wrapper
         [OF demo_getSkyDBRegistryEntry [of "JObj [(''a'', JNum 1)]" None] p c g]
       getJSON_unwraps_truthy_wrapper
         [OF demo_getSkyDBRegistryEntry [of "JStr ''text''" None] p c g]
  show ?thesis
    by (simp add: demo_wrapped_def)
qed

section \<open>Revision monotonicity\<close>


lemma posted_revisions_append [simp]:
  "posted_revisions (a @ b) = posted_revisions a @ posted_revisions b"
  by (induction a rule: posted_revisions.induct) simp_all

lemma posted_revisions_getEntry [simp]:
  "posted_revisions (snd (getEntry D W opts publicKey dk)) = []"
  by (simp add: snd_getEntry split: sum.splits)



lemma no_post_posted_revisions:
  "(\<forall>p w. RegistryPost p w \<notin> set tr) \<Longrightarrow> posted_revisions tr = []"
  by (induction tr rule: posted_revisions.induct) auto

lemma posted_revisions_getOrCreateRegistryEntry [simp]:
  "posted_revisions (snd (getOrCreateRegistryEntry D W ord opts publicKey dk json)) = []"
  by (simp add: no_post_posted_revisions getOrCreateRegistryEntry_no_post)
















section \<open>Writing\<close>

text \<open>
  C9. In every \<^verbatim>\<open>setJSON\<close> in which the registry POST is issued, the upload and the
  registry read have both settled before it, each fulfilled, in either order, and the
  POST is the last event. The order in which the two settle does not change the result
  of a write that succeeds.
\<close>

theorem setJSON_post_after_join:
  "(\<forall>ord p w. RegistryPost p w \<in> set (snd (setJSON D W ord opts privateKey dk json)) \<longrightarrow>
      (\<exists>url fl skylink publicKey se.
          snd (setJSON D W ord opts privateKey dk json)
            = (case ord of FirstSettlesFirst \<Rightarrow> [RegistryGet url, Upload fl]
               | SecondSettlesFirst \<Rightarrow> [Upload fl, RegistryGet url]) @ [RegistryPost p w]
        \<and> uploadFile W fl = Inr skylink
        \<and> fst (getEntry D W opts publicKey dk) = Inr se))
   \<and> (\<forall>r. fst (setJSON D W FirstSettlesFirst opts privateKey dk json) = Inr r
          \<longleftrightarrow> fst (setJSON D W SecondSettlesFirst opts privateKey dk json) = Inr r)"
proof -
  from setJSON_cases [of D W opts privateKey dk json] show ?thesis
  proof (elim disjE exE)
    fix e
    assume "\<forall>ord. setJSON D W ord opts privateKey dk json = (Inl e, [])"
    then show ?thesis by simp
  next
    fix publicKey
    assume run: "\<forall>ord. setJSON D W ord opts privateKey dk json =
         io_bind (getOrCreateRegistryEntry D W ord opts publicKey dk json) (\<lambda>r.
         io_bind (setEntry D W opts privateKey (fst r)) (\<lambda>_.
           ret (Inr \<lparr>json_data = Some json, dataLink = Some (formatSkylink D (snd r))\<rparr>)))"
    have a: "\<exists>url fl skylink publicKey se.
          snd (setJSON D W ord opts privateKey dk json)
            = (case ord of FirstSettlesFirst \<Rightarrow> [RegistryGet url, Upload fl]
               | SecondSettlesFirst \<Rightarrow> [Upload fl, RegistryGet url]) @ [RegistryPost p w]
        \<and> uploadFile W fl = Inr skylink
        \<and> fst (getEntry D W opts publicKey dk) = Inr se"
      if "RegistryPost p w \<in> set (snd (setJSON D W ord opts privateKey dk json))" for ord p w
      using post_after_join [OF run [rule_format] that] by blast
    have b: "fst (setJSON D W FirstSettlesFirst opts privateKey dk json) = Inr r
          \<longleftrightarrow> fst (setJSON D W SecondSettlesFirst opts privateKey dk json) = Inr r" for r
      by (simp only: run fst_io_bind_Inr
            getOrCreateRegistryEntry_order_irrelevant [of D W opts publicKey dk json])
    from a b show ?thesis by blast
  qed
qed

theorem setJSON_post_after_join_witness:
  "RegistryPost demo_set_post (transformRequest demo_set_post)
     \<in> set (snd (setJSON (demo_deps []) demo_not_found FirstSettlesFirst demo_options
                    ''ab'' ''k'' (JObj [(''a'', JNum 1)])))
   \<and> snd (setJSON (demo_deps []) demo_not_found FirstSettlesFirst demo_options
             ''ab'' ''k'' (JObj [(''a'', JNum 1)]))
       = [RegistryGet demo_url, Upload demo_file,
          RegistryPost demo_set_post (transformRequest demo_set_post)]
   \<and> snd (setJSON (demo_deps []) demo_not_found SecondSettlesFirst demo_options
             ''ab'' ''k'' (JObj [(''a'', JNum 1)]))
       = [Upload demo_file, RegistryGet demo_url,
          RegistryPost demo_set_post (transformRequest demo_set_post)]
   \<and> fst (setJSON (demo_deps []) demo_not_found SecondSettlesFirst demo_options
             ''ab'' ''k'' (JObj [(''a'', JNum 1)]))
       = Inr \<lparr>json_data = Some (JObj [(''a'', JNum 1)]), dataLink = Some demo_skylink\<rparr>"
  using setJSON_post_after_join
          [of "demo_deps []" demo_not_found demo_options "''ab''" "''k''" "JObj [(''a'', JNum 1)]"]
  by (simp add: demo_setJSON)


lemma getEntryUrl_registry_update [simp]:
  "getEntryUrl D (W\<lparr>registry_get := g\<rparr>) publicKey dk opts = getEntryUrl D W publicKey dk opts"
  by (simp add: getEntryUrl_def)





section \<open>Signing an entry\<close>

lemma getEntry_Inr_cases:
  assumes "fst (getEntry D W opts publicKey dk) = Inr se"
  shows "se = \<lparr>entry = None, signature = None\<rparr>
     \<or> (\<exists>rd. getEntry_verified D opts publicKey dk rd = Inr se)"
  using assms
  by (auto simp: getEntry_def fst_io_bind handleGetEntryErrResponse_def
      split: sum.splits option.splits if_splits)

lemma setEntry_posted_signature:
  assumes "RegistryPost p w \<in> set (snd (setEntry D W opts privateKey en))"
  shows "signEntry D privateKey en (hashedDataKeyHex opts) = Inr (post_signature p)"
  using assms
  by (auto simp: setEntry_def postSignedEntry_def snd_io_bind Let_def split: sum.splits)

text \<open>
  C2. The specification has \<^verbatim>\<open>signEntry\<close> return a detached signature of 64 bytes that
  the verification accepts. The code hands the hash of the entry to \<^verbatim>\<open>sign\<close> of
  \<^verbatim>\<open>tweetnacl\<close>, not to \<^verbatim>\<open>sign.detached\<close>, while \<^verbatim>\<open>getEntry\<close> verifies with
  \<^verbatim>\<open>sign.detached.verify\<close>. With the sizes \<^verbatim>\<open>tweetnacl\<close> documents (\<^verbatim>\<open>sign\<close> returns the
  message behind a signature of 64 bytes; the detached verification throws on a
  signature that has not 64 bytes) and a hash of 32 bytes: what \<^verbatim>\<open>signEntry\<close> returns
  has 96 bytes; the detached verification throws on it, whatever the key; no signed
  entry that \<^verbatim>\<open>getEntry\<close> returns carries it; and it is what \<^verbatim>\<open>setEntry\<close> posts as the
  signature.
\<close>

theorem signEntry_returns_signed_message:
  assumes "\<forall>m k s. nacl_sign D m k = Inr s \<longrightarrow> length s = 64 + length m"
      and "\<forall>m s k. length s \<noteq> 64 \<longrightarrow>
             nacl_sign_detached_verify D m s k = Inl (External ''bad signature size'')"
      and "hashRegistryEntry D en hashed = Inr h"
      and "length h = 32"
      and "signEntry D privateKey en hashed = Inr s"
  shows "length s = 96
     \<and> (\<forall>pk. nacl_sign_detached_verify D h s pk = Inl (External ''bad signature size''))
     \<and> (\<forall>W opts publicKey dk se.
           fst (getEntry D W opts publicKey dk) = Inr se \<longrightarrow> signature se \<noteq> Some s)
     \<and> (\<forall>W opts p w. hashedDataKeyHex opts = hashed
           \<and> RegistryPost p w \<in> set (snd (setEntry D W opts privateKey en)) \<longrightarrow>
           post_signature p = s)"
proof (intro conjI allI impI)
  from assms(3,5) obtain sk where "nacl_sign D h sk = Inr s"
    by (auto simp: signEntry_def and_then_eq_Inr)
  with assms(1,4) show len: "length s = 96"
    by fastforce
  with assms(2) show "nacl_sign_detached_verify D h s pk = Inl (External ''bad signature size'')"
    for pk
    by simp
  fix W opts publicKey dk se
  assume "fst (getEntry D W opts publicKey dk) = Inr se"
  from getEntry_Inr_cases [OF this] show "signature se \<noteq> Some s"
  proof
    assume "se = \<lparr>entry = None, signature = None\<rparr>"
    then show ?thesis by simp
  next
    assume "\<exists>rd. getEntry_verified D opts publicKey dk rd = Inr se"
    then obtain rd where "getEntry_verified D opts publicKey dk rd = Inr se" ..
    from getEntry_verified_Inr [OF this] obtain en' sig h' pk
      where "se = \<lparr>entry = Some en', signature = Some sig\<rparr>"
        and "nacl_sign_detached_verify D h' sig pk = Inr True"
      by blast
    with assms(2) len show ?thesis
      by (cases "length sig = 64") auto
  qed
next
  fix W opts p w
  assume "hashedDataKeyHex opts = hashed
           \<and> RegistryPost p w \<in> set (snd (setEntry D W opts privateKey en))"
  with setEntry_posted_signature [of p w D W opts privateKey en] assms(5)
  show "post_signature p = s"
    by simp
qed

theorem signEntry_returns_signed_message_witness:
  "signEntry (sized_deps []) sized_key sized_entry False
     = Inr (sized_signature sized_public_key sized_hash @ sized_hash)
   \<and> length (sized_signature sized_public_key sized_hash @ sized_hash) = 96
   \<and> nacl_sign_detached_verify (sized_deps []) sized_hash
        (sized_signature sized_public_key sized_hash @ sized_hash) sized_public_key
       = Inl (External ''bad signature size'')
   \<and> nacl_sign_detached_verify (sized_deps []) sized_hash
        (sized_signature sized_public_key sized_hash) sized_public_key
       = Inr True"
proof -
  have "nacl_sign_detached_verify (sized_deps []) sized_hash
        (sized_signature sized_public_key sized_hash) sized_public_key = Inr True"
    by (simp add: sized_deps_def sized_signature_def sized_public_key_def sized_hash_def)
  with signEntry_returns_signed_message
         [OF sized_deps_sizes sized_hash_entry sized_signEntry, of "[]" False]
  show ?thesis
    by (simp add: sized_signEntry)
qed

section \<open>Setting entry data through the identity delegate\<close>

text \<open>
  C10. \<^verbatim>\<open>MySky.setEntryData\<close> with data longer than 70 bytes fails with a validation
  error and causes no event: no call to the identity delegate, no registry request.
  With data of at most 70 bytes the check passes and the call goes on to ask the
  delegate for the user.
\<close>

theorem setEntryData_length_check:
  "(length d > 70 \<longrightarrow>
         setEntryData D W opts path d = (Inl (ValidationError ''data''), []))
   \<and> (length d \<le> 70 \<longrightarrow>
         (\<exists>rest. snd (setEntryData D W opts path d) = UserID # rest))"
  by (simp add: setEntryData_def MAX_ENTRY_LENGTH_def snd_io_bind split: sum.splits)

theorem setEntryData_length_check_witness:
  "setEntryData (demo_deps []) demo_not_found demo_options ''p'' (replicate 71 0)
     = (Inl (ValidationError ''data''), [])
   \<and> (\<exists>rest. snd (setEntryData (demo_deps []) demo_not_found demo_options ''p''
                      (replicate 70 0)) = UserID # rest)"
  using setEntryData_length_check
          [of "replicate 71 0" "demo_deps []" demo_not_found demo_options "''p''"]
        setEntryData_length_check
          [of "replicate 70 0" "demo_deps []" demo_not_found demo_options "''p''"]
  by simp

section \<open>The substitutions on the revision\<close>

lemma strip_prefix_Some: "strip_prefix p s = Some r \<longleftrightarrow> s = p @ r"
  by (induction p s rule: strip_prefix.induct) auto


lemma strip_prefix_append [simp]: "strip_prefix p (p @ r) = Some r"
  by (simp add: strip_prefix_Some)






subsection \<open>No key inside a serialised string\<close>









subsection \<open>Digits\<close>










subsection \<open>The request\<close>







subsection \<open>The response\<close>







subsection \<open>Decimal digits\<close>








end
